theory Spec2Isabelle
  imports Main "HOL-Library.Sublist"
begin

section \<open>JavaScript strings\<close>

text \<open>
  Strings are character lists. \<open>indexOf\<close> is \<^verbatim>\<open>String.prototype.indexOf\<close>: the lowest
  index at which the pattern occurs, or \<open>-1\<close>.
\<close>

fun indexOf :: "string \<Rightarrow> string \<Rightarrow> int" where
  "indexOf [] pat = (if pat = [] then 0 else - 1)"
| "indexOf (c # s) pat =
     (if prefix pat (c # s) then 0
      else (let r = indexOf s pat in if r < 0 then - 1 else r + 1))"

text \<open>The test \<^verbatim>\<open>s.indexOf(pat) >= 0\<close> and the test \<^verbatim>\<open>s.indexOf(pat) === -1\<close>.\<close>

definition includes_str :: "string \<Rightarrow> string \<Rightarrow> bool" where
  "includes_str s pat = (indexOf s pat \<ge> 0)"



text \<open>\<^verbatim>\<open>s.split(c)\<close> for a one-character separator, and \<^verbatim>\<open>Array.prototype.join\<close>.\<close>

fun split_on :: "char \<Rightarrow> string \<Rightarrow> string list" where
  "split_on c [] = [[]]"
| "split_on c (x # xs) =
     (if x = c then [] # split_on c xs
      else (case split_on c xs of [] \<Rightarrow> [[x]] | p # ps \<Rightarrow> (x # p) # ps))"

fun join_with :: "string \<Rightarrow> string list \<Rightarrow> string" where
  "join_with sep [] = []"
| "join_with sep [x] = x"
| "join_with sep (x # y # ys) = x @ sep @ join_with sep (y # ys)"

section \<open>Errors and promises\<close>

datatype error = Error (message: string)

text \<open>
  A settled promise: resolved with a value or rejected with an error. \<open>Uncaught\<close> is an
  exception that escapes every handler (thrown inside an event listener).
\<close>

datatype 'a outcome = Resolved 'a | Rejected error | Uncaught error

section \<open>JSON values\<close>

datatype json =
    JNull
  | JBool bool
  | JNum int
  | JStr string
  | JArr "json list"
  | JObj "(string \<times> json) list"

type_synonym jobject = "(string \<times> json) list"

text \<open>Property read on an object: \<open>None\<close> is \<^verbatim>\<open>undefined\<close>.\<close>

definition get_prop :: "jobject \<Rightarrow> string \<Rightarrow> json option" where
  "get_prop obj k = map_of obj k"

text \<open>JavaScript truthiness of a value that may be \<^verbatim>\<open>undefined\<close>.\<close>

fun truthy :: "json option \<Rightarrow> bool" where
  "truthy None = False"
| "truthy (Some JNull) = False"
| "truthy (Some (JBool b)) = b"
| "truthy (Some (JNum n)) = (n \<noteq> 0)"
| "truthy (Some (JStr s)) = (s \<noteq> [])"
| "truthy (Some (JArr xs)) = True"
| "truthy (Some (JObj kvs)) = True"

text \<open>
  Assignment \<^verbatim>\<open>obj[k] = v\<close>: an existing property keeps its place, a new one is appended.
  \<^verbatim>\<open>delete obj[k]\<close> removes the property.
\<close>

fun obj_set :: "jobject \<Rightarrow> string \<Rightarrow> json \<Rightarrow> jobject" where
  "obj_set [] k v = [(k, v)]"
| "obj_set ((k', v') # kvs) k v =
     (if k' = k then (k, v) # kvs else (k', v') # obj_set kvs k v)"

definition obj_delete :: "jobject \<Rightarrow> string \<Rightarrow> jobject" where
  "obj_delete obj k = filter (\<lambda>kv. fst kv \<noteq> k) obj"

text \<open>Assigning a value that may be \<^verbatim>\<open>undefined\<close>: such a property reads as absent and
  \<^verbatim>\<open>JSON.stringify\<close> omits it, so it is removed.\<close>

definition obj_assign :: "jobject \<Rightarrow> string \<Rightarrow> json option \<Rightarrow> jobject" where
  "obj_assign obj k v = (case v of None \<Rightarrow> obj_delete obj k | Some j \<Rightarrow> obj_set obj k j)"

section \<open>Paths and the file system\<close>

text \<open>
  Paths are POSIX path strings. On segments that are already normalised \<^verbatim>\<open>path.join\<close> puts a
  slash between them; \<^verbatim>\<open>path.basename\<close> is the text after the last slash and
  \<^verbatim>\<open>path.dirname\<close> the text before it.
\<close>

definition path_join :: "string \<Rightarrow> string \<Rightarrow> string" where
  "path_join a b = a @ ''/'' @ b"

definition basename :: "string \<Rightarrow> string" where
  "basename p = rev (takeWhile (\<lambda>c. c \<noteq> CHR ''/'') (rev p))"

definition dirname :: "string \<Rightarrow> string" where
  "dirname p =
     (if CHR ''/'' \<notin> set p then ''.''
      else (let d = rev (drop 1 (dropWhile (\<lambda>c. c \<noteq> CHR ''/'') (rev p)))
            in if d = [] then ''/'' else d))"

text \<open>
  A file holds either raw bytes or the text \<^verbatim>\<open>JSON.stringify\<close> wrote for a value. The file
  system lists its entries by path; a directory's content is every entry below it.
\<close>

datatype fdata = Bytes string | JsonText json

datatype node = File fdata | Dir

type_synonym filesystem = "(string \<times> node) list"

definition existsSync :: "filesystem \<Rightarrow> string \<Rightarrow> bool" where
  "existsSync fs p = (map_of fs p \<noteq> None)"

definition is_dir :: "filesystem \<Rightarrow> string \<Rightarrow> bool" where
  "is_dir fs p = (map_of fs p = Some Dir)"


definition under :: "string \<Rightarrow> string \<Rightarrow> bool" where
  "under d p = prefix (d @ ''/'') p"

definition fs_put :: "filesystem \<Rightarrow> string \<Rightarrow> node \<Rightarrow> filesystem" where
  "fs_put fs p n = filter (\<lambda>e. fst e \<noteq> p) fs @ [(p, n)]"

text \<open>\<^verbatim>\<open>fs.removeSync\<close> (rimraf): the entry and everything below it; a missing path is no error.\<close>

definition removeSync :: "filesystem \<Rightarrow> string \<Rightarrow> filesystem" where
  "removeSync fs p = filter (\<lambda>e. \<not> (fst e = p \<or> under p (fst e))) fs"

text \<open>
  \<^verbatim>\<open>fs.readJsonSync\<close>: a missing path and a directory fail; the text written for a JSON value
  parses back to it. On raw bytes that are empty or all white space \<^verbatim>\<open>JSON.parse\<close> throws
  \<^verbatim>\<open>Unexpected end of input\<close>; what it does on other raw bytes is the parameter \<open>parse\<close>.
\<close>

definition enoent :: "string \<Rightarrow> error" where
  "enoent p = Error (''ENOENT, no such file or directory '' @ [CHR 0x27] @ p @ [CHR 0x27])"

definition json_whitespace :: "char \<Rightarrow> bool" where
  "json_whitespace c = (c = CHR '' '' \<or> c = CHR 0x09 \<or> c = CHR 0x0A \<or> c = CHR 0x0D)"

definition JSON_parse_bytes :: "(string \<Rightarrow> error + json) \<Rightarrow> string \<Rightarrow> error + json" where
  "JSON_parse_bytes parse s =
     (if list_all json_whitespace s then Inl (Error ''Unexpected end of input'') else parse s)"

definition readJsonSync :: "(string \<Rightarrow> error + json) \<Rightarrow> filesystem \<Rightarrow> string \<Rightarrow> error + json" where
  "readJsonSync parse fs p =
     (case map_of fs p of
        None \<Rightarrow> Inl (enoent p)
      | Some Dir \<Rightarrow> Inl (Error ''EISDIR, illegal operation on a directory'')
      | Some (File (JsonText j)) \<Rightarrow> Inr j
      | Some (File (Bytes s)) \<Rightarrow> JSON_parse_bytes parse s)"

section \<open>The project and its collaborators\<close>

text \<open>
  The fields of a \<^verbatim>\<open>Project\<close> instance that the operations below read or write; \<open>None\<close> is
  \<^verbatim>\<open>undefined\<close>.
\<close>

record project =
  path :: "string option"
  workspace :: "string option"
  name :: "string option"
  origin :: "string option"
  project_id :: "string option"
  valid :: "bool option"
  package :: "json option"

text \<open>
  An asynchronous step of a collaborator (network client, package descriptor, configuration
  writers): it fails with an error or succeeds, and either way may have changed the disk.
\<close>

type_synonym step = "filesystem \<Rightarrow> (error \<times> filesystem) + filesystem"

record collaborators =
  process_cwd :: string
  JSON_parse :: "string \<Rightarrow> error + json"
  Package_init :: step
  getSettings :: step
  getCachedSession :: step
  sfdcClient_initialize :: step
  writeSession :: step
  orgMetadataIndexWithSelections :: step
  refreshDescribeFromServer :: step
  startSystemStreamingListener :: step

text \<open>A chain of \<^verbatim>\<open>.then\<close> handlers: the first failure skips the rest.\<close>

fun run_steps :: "step list \<Rightarrow> step" where
  "run_steps [] fs = Inr fs"
| "run_steps (s # ss) fs = (case s fs of Inl x \<Rightarrow> Inl x | Inr fs' \<Rightarrow> run_steps ss fs')"

definition join3 :: "string \<Rightarrow> string \<Rightarrow> string \<Rightarrow> string" where
  "join3 a b c = path_join (path_join a b) c"

subsection \<open>getLocalStore\<close>

definition local_store_path :: "string \<Rightarrow> string" where
  "local_store_path p = join3 p ''config'' ''.local_store''"

definition getLocalStore :: "(string \<Rightarrow> error + json) \<Rightarrow> filesystem \<Rightarrow> string \<Rightarrow> error + json" where
  "getLocalStore parse fs p =
     (case readJsonSync parse fs (local_store_path p) of
        Inr localStore \<Rightarrow> Inr localStore
      | Inl e \<Rightarrow>
          if includes_str (message e) ''Unexpected end of input'' then Inr (JObj [])
          else Inl e)"

subsection \<open>_initExisting\<close>

definition isValid :: "collaborators \<Rightarrow> project \<Rightarrow> filesystem \<Rightarrow> bool" where
  "isValid env self fs =
     (case path self of
        Some p \<Rightarrow> existsSync fs (join3 p ''config'' ''.settings'')
      | None \<Rightarrow>
          (case (workspace self, name self) of
             (Some w, Some n) \<Rightarrow> existsSync fs (join3 (path_join w n) ''config'' ''.settings'')
           | _ \<Rightarrow> existsSync fs (join3 (process_cwd env) ''config'' ''.settings'')))"

text \<open>The path, workspace and name an existing project ends up with.\<close>

definition existing_location :: "collaborators \<Rightarrow> project \<Rightarrow> project" where
  "existing_location env self =
     (case path self of
        Some p \<Rightarrow> self\<lparr>workspace := Some (dirname p), name := Some (basename p)\<rparr>
      | None \<Rightarrow>
          (case (workspace self, name self) of
             (Some w, Some n) \<Rightarrow> self\<lparr>path := Some (path_join w n)\<rparr>
           | _ \<Rightarrow> self\<lparr>path := Some (process_cwd env),
                      workspace := Some (dirname (process_cwd env)),
                      name := Some (basename (process_cwd env))\<rparr>))"

definition existing_path :: "collaborators \<Rightarrow> project \<Rightarrow> string" where
  "existing_path env self =
     (case path self of
        Some p \<Rightarrow> p
      | None \<Rightarrow>
          (case (workspace self, name self) of
             (Some w, Some n) \<Rightarrow> path_join w n
           | _ \<Rightarrow> process_cwd env))"

text \<open>The promise chain of \<^verbatim>\<open>_initExisting\<close>, from \<^verbatim>\<open>packageXml.init()\<close> to the streaming
  listener. \<^verbatim>\<open>getLocalStore\<close> is called synchronously in the fifth handler, where what it
  throws rejects the chain.\<close>

definition initExisting_chain :: "collaborators \<Rightarrow> string \<Rightarrow> step" where
  "initExisting_chain env p =
     run_steps
       [Package_init env,
        getSettings env,
        getCachedSession env,
        sfdcClient_initialize env,
        writeSession env,
        (\<lambda>fs. case getLocalStore (JSON_parse env) fs p of
                 Inl e \<Rightarrow> Inl (e, fs)
               | Inr localStore \<Rightarrow> orgMetadataIndexWithSelections env fs),
        refreshDescribeFromServer env,
        startSystemStreamingListener env]"

text \<open>The test of the \<^verbatim>\<open>catch\<close> handler on the error's message.\<close>

definition auth_failure :: "error \<Rightarrow> bool" where
  "auth_failure e =
     (includes_str (message e) ''INVALID_LOGIN''
      \<or> includes_str (message e) ''EXPIRED_PASSWORD''
      \<or> includes_str (message e) ''LOGIN_MUST_USE_SECURITY_TOKEN'')"

definition initExisting ::
  "collaborators \<Rightarrow> project \<Rightarrow> filesystem \<Rightarrow> unit outcome \<times> project \<times> filesystem" where
  "initExisting env self fs =
     (if \<not> isValid env self fs then
        (Rejected (Error ''This does not seem to be a valid MavensMate project directory.''),
         self, fs)
      else
        (let self1 = existing_location env self; p = existing_path env self in
         if \<not> existsSync fs p then
           (Rejected (Error ''This does not seem to be a valid MavensMate project directory.''),
            self1, fs)
         else
           (case initExisting_chain env p fs of
              Inr fs' \<Rightarrow> (Resolved (), self1\<lparr>valid := Some True\<rparr>, fs')
            | Inl (e, fs') \<Rightarrow>
                (Rejected e,
                 (if auth_failure e then self1\<lparr>valid := Some False\<rparr> else self1),
                 fs'))))"

text \<open>Collaborators that all succeed and leave the disk alone, and a project on disk.\<close>

definition ok_step :: step where
  "ok_step fs = Inr fs"

definition fail_step :: "string \<Rightarrow> step" where
  "fail_step m fs = Inl (Error m, fs)"

definition quiet_env :: collaborators where
  "quiet_env =
     \<lparr>process_cwd = ''/home/dev'',
      JSON_parse = (\<lambda>s. Inl (Error ''Unexpected token'')),
      Package_init = ok_step,
      getSettings = ok_step,
      getCachedSession = ok_step,
      sfdcClient_initialize = ok_step,
      writeSession = ok_step,
      orgMetadataIndexWithSelections = ok_step,
      refreshDescribeFromServer = ok_step,
      startSystemStreamingListener = ok_step\<rparr>"

definition proj1 :: project where
  "proj1 =
     \<lparr>path = Some ''/tmp/ws/Proj1'', workspace = None, name = None, origin = None,
      project_id = None, valid = None, package = None\<rparr>"

definition proj1_disk :: filesystem where
  "proj1_disk =
     [(''/'', Dir), (''/tmp'', Dir), (''/tmp/ws'', Dir), (''/tmp/ws/Proj1'', Dir),
      (''/tmp/ws/Proj1/config'', Dir),
      (''/tmp/ws/Proj1/config/.settings'', File (JsonText (JObj []))),
      (''/tmp/ws/Proj1/config/.local_store'', File (Bytes ''''))]"

subsection \<open>Creating, copying and renaming\<close>

text \<open>
  \<^verbatim>\<open>fs.mkdirSync\<close> creates one directory: the path must be free and its parent a directory.
  \<^verbatim>\<open>fs.mkdirpSync\<close> (also \<^verbatim>\<open>ensureDirSync\<close>) creates the missing directories on the way
  and fails where a file is in the way.
\<close>

definition mkdirSync :: "filesystem \<Rightarrow> string \<Rightarrow> error + filesystem" where
  "mkdirSync fs p =
     (if existsSync fs p then Inl (Error (''EEXIST, file already exists '' @ p))
      else if \<not> is_dir fs (dirname p) then Inl (enoent p)
      else Inr (fs_put fs p Dir))"

definition ancestors :: "string \<Rightarrow> string list" where
  "ancestors p = map (\<lambda>i. take i p) (filter (\<lambda>i. p ! i = CHR ''/'') [1..<length p])"

fun mkdirs :: "string list \<Rightarrow> filesystem \<Rightarrow> error + filesystem" where
  "mkdirs [] fs = Inr fs"
| "mkdirs (d # ds) fs =
     (case map_of fs d of
        None \<Rightarrow> mkdirs ds (fs_put fs d Dir)
      | Some Dir \<Rightarrow> mkdirs ds fs
      | Some (File c) \<Rightarrow> Inl (Error (''ENOTDIR, not a directory '' @ d)))"

definition mkdirpSync :: "filesystem \<Rightarrow> string \<Rightarrow> error + filesystem" where
  "mkdirpSync fs p = mkdirs (ancestors p @ [p]) fs"

text \<open>\<^verbatim>\<open>fs.writeFileSync\<close>, and \<^verbatim>\<open>fs.outputFile\<close>, which first creates the directory.\<close>

definition writeFileSync :: "filesystem \<Rightarrow> string \<Rightarrow> fdata \<Rightarrow> error + filesystem" where
  "writeFileSync fs p c =
     (if is_dir fs p then Inl (Error (''EISDIR, illegal operation on a directory '' @ p))
      else if \<not> is_dir fs (dirname p) then Inl (enoent p)
      else Inr (fs_put fs p (File c)))"

definition outputFile :: "filesystem \<Rightarrow> string \<Rightarrow> fdata \<Rightarrow> error + filesystem" where
  "outputFile fs p c =
     (if existsSync fs (dirname p) then writeFileSync fs p c
      else (case mkdirpSync fs (dirname p) of
              Inl e \<Rightarrow> Inl e
            | Inr fs' \<Rightarrow> writeFileSync fs' p c))"

text \<open>
  \<^verbatim>\<open>fs.copySync\<close>: a file is written over the destination, whose directory is created when
  it is missing; a directory is copied entry by entry. A copy that fails leaves what it had
  copied so far.
\<close>

fun copy_entries :: "string \<Rightarrow> string \<Rightarrow> (string \<times> node) list \<Rightarrow> step" where
  "copy_entries src dst [] fs = Inr fs"
| "copy_entries src dst ((q, n) # es) fs =
     (if under src q then
        (case n of
           Dir \<Rightarrow>
             (case mkdirpSync fs (dst @ drop (length src) q) of
                Inl e \<Rightarrow> Inl (e, fs)
              | Inr fs' \<Rightarrow> copy_entries src dst es fs')
         | File c \<Rightarrow>
             (case outputFile fs (dst @ drop (length src) q) c of
                Inl e \<Rightarrow> Inl (e, fs)
              | Inr fs' \<Rightarrow> copy_entries src dst es fs'))
      else copy_entries src dst es fs)"

definition copySync :: "filesystem \<Rightarrow> string \<Rightarrow> string \<Rightarrow> (error \<times> filesystem) + filesystem" where
  "copySync fs src dst =
     (case map_of fs src of
        None \<Rightarrow> Inl (enoent src, fs)
      | Some (File c) \<Rightarrow>
          (case outputFile fs dst c of Inl e \<Rightarrow> Inl (e, fs) | Inr fs' \<Rightarrow> Inr fs')
      | Some Dir \<Rightarrow>
          (case mkdirpSync fs dst of
             Inl e \<Rightarrow> Inl (e, fs)
           | Inr fs' \<Rightarrow> copy_entries src dst fs fs'))"


text \<open>\<^verbatim>\<open>fs.existsSync\<close> of a path that may be \<^verbatim>\<open>undefined\<close> (false then), and \<^verbatim>\<open>path.join\<close>
  of segments that may be \<^verbatim>\<open>undefined\<close> (a \<^verbatim>\<open>TypeError\<close> then).\<close>

definition existsSync_opt :: "filesystem \<Rightarrow> string option \<Rightarrow> bool" where
  "existsSync_opt fs p = (case p of None \<Rightarrow> False | Some q \<Rightarrow> existsSync fs q)"

definition path_join_opt :: "string option \<Rightarrow> string option \<Rightarrow> error + string" where
  "path_join_opt a b =
     (case (a, b) of
        (Some x, Some y) \<Rightarrow> Inr (path_join x y)
      | _ \<Rightarrow> Inl (Error ''Arguments to path.join must be strings''))"

subsection \<open>_initNew\<close>

text \<open>The value of the \<^verbatim>\<open>mm_workspace\<close> setting: a list of workspaces, one workspace, or
  something else.\<close>

datatype workspace_setting = WsArray "string list" | WsString string | WsOther

definition setting_workspace :: "workspace_setting \<Rightarrow> string option" where
  "setting_workspace s =
     (case s of
        WsArray xs \<Rightarrow> (case xs of [] \<Rightarrow> None | x # _ \<Rightarrow> Some x)
      | WsString w \<Rightarrow> Some w
      | WsOther \<Rightarrow> None)"

definition falsy_str :: "string option \<Rightarrow> bool" where
  "falsy_str s = (case s of None \<Rightarrow> True | Some x \<Rightarrow> x = [])"

text \<open>
  \<open>initNew setting uuid self fs\<close>: \<open>setting\<close> is \<^verbatim>\<open>config.get('mm_workspace')\<close> and \<open>uuid\<close>
  the value \<^verbatim>\<open>uuid.v1()\<close> returns. What is thrown inside the promise's executor rejects
  the promise.
\<close>

definition initNew_workspace ::
  "workspace_setting \<Rightarrow> project \<Rightarrow> filesystem \<Rightarrow> error + project \<times> filesystem" where
  "initNew_workspace setting self fs =
     (if falsy_str (workspace self) then
        (let w = setting_workspace setting in
         case (if \<not> falsy_str w \<and> \<not> existsSync_opt fs w then mkdirSync fs (the w) else Inr fs) of
           Inl e \<Rightarrow> Inl e
         | Inr fs' \<Rightarrow> Inr (self\<lparr>workspace := w\<rparr>, fs'))
      else if \<not> existsSync_opt fs (workspace self) then
        (case mkdirSync fs (the (workspace self)) of
           Inl e \<Rightarrow> Inl e
         | Inr fs' \<Rightarrow> Inr (self, fs'))
      else Inr (self, fs))"

definition initNew ::
  "workspace_setting \<Rightarrow> string \<Rightarrow> project \<Rightarrow> filesystem
     \<Rightarrow> string outcome \<times> project \<times> filesystem" where
  "initNew setting uuid self fs =
     (case initNew_workspace setting self fs of
        Inl e \<Rightarrow> (Rejected e, self, fs)
      | Inr (self1, fs1) \<Rightarrow>
          if falsy_str (workspace self1) then
            (Rejected (Error ''Could not set workspace for new project''), self1, fs1)
          else
            (case path_join_opt (workspace self1) (name self1) of
               Inl e \<Rightarrow> (Rejected e, self1, fs1)
             | Inr p \<Rightarrow>
                 if existsSync fs1 p then
                   (Rejected (Error ''Directory already exists!''), self1\<lparr>path := Some p\<rparr>, fs1)
                 else
                   (Resolved uuid, self1\<lparr>path := Some p, project_id := Some uuid\<rparr>, fs1)))"

definition new_proj1 :: project where
  "new_proj1 =
     \<lparr>path = None, workspace = Some ''/tmp/ws'', name = Some ''Proj1'', origin = None,
      project_id = None, valid = None, package = None\<rparr>"

section \<open>The local store\<close>

text \<open>
  A metadata type as the type registry (\<^verbatim>\<open>MetadataHelper\<close>) describes it, and the registry's
  two lookups. The registry is a collaborator: \<^verbatim>\<open>getTypeByPath\<close> is handed whatever the file
  property holds (also \<^verbatim>\<open>undefined\<close>) and may throw.
\<close>

record metadata_type =
  mt_xmlName :: string
  mt_suffix :: "string option"
  mt_directoryName :: "string option"
  mt_tagName :: "string option"
  mt_inFolder :: bool
  mt_parentXmlName :: "string option"
  mt_childXmlNames :: "string list option"

record metadata_helper =
  getTypeByXmlName :: "string \<Rightarrow> metadata_type option"
  getTypeByPath :: "json option \<Rightarrow> error + metadata_type option"

text \<open>String conversion of a value in a concatenation or in \<^verbatim>\<open>Array.prototype.join\<close>.\<close>

function string_of_nat :: "nat \<Rightarrow> string" where
  "string_of_nat n =
     (if n < 10 then [char_of (48 + n)]
      else string_of_nat (n div 10) @ [char_of (48 + n mod 10)])"
  by pat_completeness auto
termination
  by (relation "measure (\<lambda>n. n)") auto

definition string_of_int :: "int \<Rightarrow> string" where
  "string_of_int i =
     (if i < 0 then CHR ''-'' # string_of_nat (nat (- i)) else string_of_nat (nat i))"

fun js_string :: "json \<Rightarrow> string" where
  "js_string JNull = ''null''"
| "js_string (JBool b) = (if b then ''true'' else ''false'')"
| "js_string (JNum n) = string_of_int n"
| "js_string (JStr s) = s"
| "js_string (JArr xs) = join_with '','' (map (\<lambda>x. if x = JNull then [] else js_string x) xs)"
| "js_string (JObj kvs) = ''[object Object]''"

definition js_concat :: "json option \<Rightarrow> string" where
  "js_concat v = (case v of None \<Rightarrow> ''undefined'' | Some j \<Rightarrow> js_string j)"

definition str_or_undefined :: "string option \<Rightarrow> string" where
  "str_or_undefined s = (case s of None \<Rightarrow> ''undefined'' | Some x \<Rightarrow> x)"

definition join_item :: "string option \<Rightarrow> string" where
  "join_item s = (case s of None \<Rightarrow> [] | Some x \<Rightarrow> x)"

text \<open>
  The file properties handed to the store writers: an array is taken element by element,
  anything else is wrapped into a one-element array. An element that is \<^verbatim>\<open>undefined\<close> or
  \<^verbatim>\<open>null\<close> has no properties to read (a \<^verbatim>\<open>TypeError\<close>); any other value that is not an
  object reads as an object without properties.
\<close>

definition as_array :: "json option \<Rightarrow> json option list" where
  "as_array properties =
     (case properties of Some (JArr xs) \<Rightarrow> map Some xs | v \<Rightarrow> [v])"

fun view_object :: "json option \<Rightarrow> jobject option" where
  "view_object None = None"
| "view_object (Some JNull) = None"
| "view_object (Some (JObj kvs)) = Some kvs"
| "view_object (Some v) = Some []"

definition type_error :: error where
  "type_error = Error ''TypeError: Cannot read property of undefined''"

text \<open>Reading a property of a value that may be \<^verbatim>\<open>undefined\<close>.\<close>

definition member :: "json option \<Rightarrow> string \<Rightarrow> error + json option" where
  "member v k =
     (case view_object v of None \<Rightarrow> Inl type_error | Some obj \<Rightarrow> Inr (get_prop obj k))"

definition mark_clean :: "jobject \<Rightarrow> json" where
  "mark_clean fp = JObj (obj_set fp ''mmState'' (JStr ''clean''))"

text \<open>
  \<^verbatim>\<open>store[key] = value\<close>. Only an object keeps the property: an array takes it without
  serialising it (the keys written here are never array indices), and \<^verbatim>\<open>null\<close> and the
  primitive values throw (the module is in strict mode).
\<close>

definition store_set :: "json \<Rightarrow> string \<Rightarrow> json \<Rightarrow> error + json" where
  "store_set store k x =
     (case store of
        JObj kvs \<Rightarrow> Inr (JObj (obj_set kvs k x))
      | JArr xs \<Rightarrow> Inr (JArr xs)
      | _ \<Rightarrow> Inl type_error)"

text \<open>
  The loop \<^verbatim>\<open>_.each(properties, ...)\<close>: \<open>f\<close> is what a round computes from the file
  property, the key and value it assigns (or none when the property is skipped) or the error
  it throws.
\<close>

fun store_each ::
  "('a \<Rightarrow> error + (string \<times> json) option) \<Rightarrow> 'a list \<Rightarrow> json \<Rightarrow> error + json" where
  "store_each f [] store = Inr store"
| "store_each f (v # vs) store =
     (case f v of
        Inl e \<Rightarrow> Inl e
      | Inr None \<Rightarrow> store_each f vs store
      | Inr (Some (k, x)) \<Rightarrow>
          (case store_set store k x of
             Inl e \<Rightarrow> Inl e
           | Inr store' \<Rightarrow> store_each f vs store'))"

subsection \<open>_writeLocalStore\<close>

text \<open>
  One round of the loop of \<^verbatim>\<open>_writeLocalStore\<close>. \<^verbatim>\<open>fp.fullName.indexOf\<close> is evaluated in
  both branches, so a \<open>fullName\<close> that is not a string throws (an array, which has an
  \<^verbatim>\<open>indexOf\<close> of its own, is outside the model and taken as such a throw).
\<close>

definition writeLocalStore_entry ::
  "metadata_helper \<Rightarrow> json option \<Rightarrow> error + (string \<times> json) option" where
  "writeLocalStore_entry helper v =
     (case view_object v of
        None \<Rightarrow> Inl type_error
      | Some fp \<Rightarrow>
          (case getTypeByPath helper (get_prop fp ''fileName'') of
             Inl e \<Rightarrow> Inl e
           | Inr metadataType \<Rightarrow>
               (case get_prop fp ''fullName'' of
                  Some (JStr fullName) \<Rightarrow>
                    (case metadataType of
                       Some mt \<Rightarrow>
                         if indexOf fullName ''package.xml'' = - 1 then
                           Inr (Some (fullName @ ''.'' @ str_or_undefined (mt_suffix mt),
                                      mark_clean fp))
                         else Inr None
                     | None \<Rightarrow> Inr None)
                | _ \<Rightarrow> Inl type_error)))"

definition writeLocalStore ::
  "metadata_helper \<Rightarrow> string \<Rightarrow> json option \<Rightarrow> filesystem \<Rightarrow> unit outcome \<times> filesystem" where
  "writeLocalStore helper p fileProperties fs =
     (case store_each (writeLocalStore_entry helper) (as_array fileProperties) (JObj []) of
        Inl e \<Rightarrow> (Rejected e, fs)
      | Inr store \<Rightarrow>
          (case outputFile fs (local_store_path p) (JsonText store) of
             Inl e \<Rightarrow> (Rejected (Error (''Could not write local store: '' @ message e)), fs)
           | Inr fs' \<Rightarrow> (Resolved (), fs')))"

subsection \<open>updateLocalStore\<close>

text \<open>
  A type name that is not a string names no type. \<open>from_query_record\<close> is the second branch,
  which rewrites an API-query-style record into the canonical shape; it reads
  \<^verbatim>\<open>fp.createdBy.name\<close> and \<^verbatim>\<open>fp.lastModifiedBy.name\<close>, which throw on \<^verbatim>\<open>undefined\<close>.
\<close>

definition lookup_type_name :: "metadata_helper \<Rightarrow> json option \<Rightarrow> metadata_type option" where
  "lookup_type_name helper v =
     (case v of Some (JStr s) \<Rightarrow> getTypeByXmlName helper s | _ \<Rightarrow> None)"

definition attributes_type :: "jobject \<Rightarrow> json option" where
  "attributes_type fp =
     (case get_prop fp ''attributes'' of Some (JObj a) \<Rightarrow> get_prop a ''type'' | _ \<Rightarrow> None)"

definition from_query_record :: "metadata_type \<Rightarrow> jobject \<Rightarrow> error + jobject" where
  "from_query_record mt fp =
     (let fp1 = obj_assign fp ''fullName'' (get_prop fp ''name'');
          fp2 = obj_set fp1 ''fileName''
                  (JStr (join_with ''/''
                     [''unpackaged'', join_item (mt_directoryName mt),
                      js_concat (get_prop fp1 ''name'') @ ''.'' @ str_or_undefined (mt_suffix mt)]))
      in case member (get_prop fp2 ''createdBy'') ''name'' of
           Inl e \<Rightarrow> Inl e
         | Inr createdByName \<Rightarrow>
             (let fp3 = obj_assign fp2 ''createdByName'' createdByName
              in case member (get_prop fp3 ''lastModifiedBy'') ''name'' of
                   Inl e \<Rightarrow> Inl e
                 | Inr lastModifiedByName \<Rightarrow>
                     (let fp4 = obj_assign fp3 ''lastModifiedByName'' lastModifiedByName;
                          fp5 = obj_set fp4 ''manageableState''
                                  (JStr (if \<not> truthy (get_prop fp4 ''namespacePrefix'')
                                         then ''unmanaged'' else ''managed''));
                          fp6 = obj_assign fp5 ''namespacePrefix'' (get_prop fp5 ''namespacePrefix'');
                          fp7 = obj_set fp6 ''type'' (JStr (mt_xmlName mt))
                      in Inr (obj_delete (obj_delete (obj_delete fp7 ''createdBy'')
                                ''lastModifiedBy'') ''attributes''))))"

text \<open>The element \<^verbatim>\<open>[1]\<close> of \<^verbatim>\<open>fileName.split('.')\<close>.\<close>

definition second_piece :: "string \<Rightarrow> json option" where
  "second_piece s = (case split_on CHR ''.'' s of a # b # r \<Rightarrow> Some (JStr b) | _ \<Rightarrow> None)"

text \<open>The metadata type of a file property, and the property as the three branches leave it.\<close>

definition resolve_type ::
  "metadata_helper \<Rightarrow> jobject \<Rightarrow> error + metadata_type option \<times> jobject" where
  "resolve_type helper fp =
     (if truthy (get_prop fp ''type'') then
        Inr (lookup_type_name helper (get_prop fp ''type''), fp)
      else if truthy (get_prop fp ''attributes'') \<and> truthy (attributes_type fp) then
        (case lookup_type_name helper (attributes_type fp) of
           None \<Rightarrow> Inl type_error
         | Some mt \<Rightarrow>
             (case from_query_record mt fp of
                Inl e \<Rightarrow> Inl e
              | Inr fp' \<Rightarrow> Inr (Some mt, fp')))
      else
        (case get_prop fp ''fileName'' of
           Some (JStr fileName) \<Rightarrow>
             (case getTypeByPath helper (second_piece fileName) of
                Inl e \<Rightarrow> Inl e
              | Inr metadataType \<Rightarrow> Inr (metadataType, fp))
         | _ \<Rightarrow> Inl type_error))"

text \<open>The key and value a round assigns, from the resolved type and the property.\<close>

definition store_assignment ::
  "metadata_type option \<Rightarrow> jobject \<Rightarrow> error + (string \<times> json) option" where
  "store_assignment metadataType fp =
     (case metadataType of
        Some mt \<Rightarrow>
          if truthy (get_prop fp ''attributes'') then
            Inr (Some (js_concat (get_prop fp ''name'') @ ''.'' @ str_or_undefined (mt_suffix mt),
                       mark_clean fp))
          else
            (case get_prop fp ''fullName'' of
               Some (JStr fullName) \<Rightarrow>
                 if indexOf fullName ''package.xml'' = - 1 then
                   Inr (Some (fullName @ ''.'' @ str_or_undefined (mt_suffix mt), mark_clean fp))
                 else Inr None
             | _ \<Rightarrow> Inl type_error)
      | None \<Rightarrow>
          (case get_prop fp ''fullName'' of
             Some (JStr fullName) \<Rightarrow> Inr None
           | _ \<Rightarrow> Inl type_error))"

text \<open>
  One round of the loop of \<^verbatim>\<open>updateLocalStore\<close>; \<open>normalize_object\<close> is the \<^verbatim>\<open>normalize-object\<close>
  utility, a collaborator.
\<close>

definition updateLocalStore_entry ::
  "metadata_helper \<Rightarrow> (jobject \<Rightarrow> jobject) \<Rightarrow> json option \<Rightarrow> error + (string \<times> json) option" where
  "updateLocalStore_entry helper normalize_object v =
     (case view_object v of
        None \<Rightarrow> Inl type_error
      | Some fp0 \<Rightarrow>
          (let fp = (if truthy (get_prop fp0 ''attributes'') then normalize_object fp0 else fp0)
           in case resolve_type helper fp of
                Inl e \<Rightarrow> Inl e
              | Inr (metadataType, fp') \<Rightarrow> store_assignment metadataType fp'))"

text \<open>
  The rounds assign \<^verbatim>\<open>mmState\<close> on the file property object itself. A property without
  \<^verbatim>\<open>attributes\<close> is the caller's own object, which so changes; \<open>normalize_object\<close> hands back a
  new object and leaves the caller's alone.
\<close>

definition marked_property ::
  "metadata_helper \<Rightarrow> (jobject \<Rightarrow> jobject) \<Rightarrow> json \<Rightarrow> json" where
  "marked_property helper normalize_object j =
     (case j of
        JObj fp \<Rightarrow>
          if truthy (get_prop fp ''attributes'') then j
          else (case updateLocalStore_entry helper normalize_object (Some j) of
                  Inr (Some (k, x)) \<Rightarrow> x
                | _ \<Rightarrow> j)
      | _ \<Rightarrow> j)"

definition marked_properties ::
  "metadata_helper \<Rightarrow> (jobject \<Rightarrow> jobject) \<Rightarrow> json option \<Rightarrow> json option" where
  "marked_properties helper normalize_object properties =
     (case properties of
        Some (JArr xs) \<Rightarrow> Some (JArr (map (marked_property helper normalize_object) xs))
      | Some j \<Rightarrow> Some (marked_property helper normalize_object j)
      | None \<Rightarrow> None)"

definition updateLocalStore ::
  "metadata_helper \<Rightarrow> (jobject \<Rightarrow> jobject) \<Rightarrow> (string \<Rightarrow> error + json) \<Rightarrow> string
     \<Rightarrow> json option \<Rightarrow> filesystem \<Rightarrow> unit outcome \<times> filesystem" where
  "updateLocalStore helper normalize_object parse p fileProperties fs =
     (case getLocalStore parse fs p of
        Inl e \<Rightarrow> (Rejected e, fs)
      | Inr store \<Rightarrow>
          (case store_each (updateLocalStore_entry helper normalize_object) (as_array fileProperties) store of
             Inl e \<Rightarrow> (Rejected e, fs)
           | Inr store' \<Rightarrow>
               (case outputFile fs (local_store_path p) (JsonText store') of
                  Inl e \<Rightarrow> (Rejected e, fs)
                | Inr fs' \<Rightarrow> (Resolved (), fs'))))"

text \<open>A small registry and three file properties of a retrieve: a class, the manifest and a
  file of no known type.\<close>

definition apexClass :: metadata_type where
  "apexClass =
     \<lparr>mt_xmlName = ''ApexClass'', mt_suffix = Some ''cls'', mt_directoryName = Some ''classes'',
      mt_tagName = None, mt_inFolder = False, mt_parentXmlName = None,
      mt_childXmlNames = None\<rparr>"

definition demo_helper :: metadata_helper where
  "demo_helper =
     \<lparr>getTypeByXmlName = (\<lambda>s. if s = ''ApexClass'' then Some apexClass else None),
      getTypeByPath = (\<lambda>v. case v of
                              Some (JStr s) \<Rightarrow>
                                Inr (if includes_str s ''cls'' then Some apexClass else None)
                            | _ \<Rightarrow> Inr None)\<rparr>"

definition foo_cls :: jobject where
  "foo_cls = [(''fileName'', JStr ''unpackaged/classes/Foo.cls''), (''fullName'', JStr ''Foo'')]"

definition demo_properties :: json where
  "demo_properties =
     JArr [JObj foo_cls,
           JObj [(''fileName'', JStr ''unpackaged/package.xml''),
                 (''fullName'', JStr ''unpackaged/package.xml'')],
           JObj [(''fileName'', JStr ''unpackaged/misc/Thing.xyz''), (''fullName'', JStr ''Thing'')]]"

definition bar_entry :: json where
  "bar_entry = JObj [(''fullName'', JStr ''Bar''), (''mmState'', JStr ''dirty'')]"

definition stored_disk :: filesystem where
  "stored_disk =
     [(''/tmp/ws/Proj1'', Dir), (''/tmp/ws/Proj1/config'', Dir),
      (''/tmp/ws/Proj1/config/.local_store'',
       File (JsonText (JObj [(''Bar.cls'', bar_entry), (''Foo.cls'', JObj foo_cls)])))]"

text \<open>A registry that knows documents by their folder, and the file property of a document
  that is itself called \<^verbatim>\<open>package.xml\<close>, kept in the document folder \<^verbatim>\<open>Legal\<close>.\<close>

definition document :: metadata_type where
  "document =
     \<lparr>mt_xmlName = ''Document'', mt_suffix = None, mt_directoryName = Some ''documents'',
      mt_tagName = None, mt_inFolder = True, mt_parentXmlName = None,
      mt_childXmlNames = None\<rparr>"

definition document_helper :: metadata_helper where
  "document_helper =
     \<lparr>getTypeByXmlName = (\<lambda>s. if s = ''Document'' then Some document else None),
      getTypeByPath = (\<lambda>v. case v of
                              Some (JStr s) \<Rightarrow>
                                Inr (if includes_str s ''/documents/'' then Some document else None)
                            | _ \<Rightarrow> Inr None)\<rparr>"

definition legal_document :: jobject where
  "legal_document =
     [(''fileName'', JStr ''unpackaged/documents/Legal/package.xml''),
      (''fullName'', JStr ''Legal/package.xml'')]"

section \<open>compile\<close>

text \<open>
  The collaborators of \<^verbatim>\<open>compile\<close>: \<^verbatim>\<open>temp.mkdirSync\<close> creates and names a fresh directory,
  \<^verbatim>\<open>util.zipDirectory\<close> writes the archive, and \<^verbatim>\<open>sfdcClient.deploy\<close> answers with the deploy
  result.
\<close>

record compile_collaborators =
  temp_mkdirSync :: "filesystem \<Rightarrow> error + string \<times> filesystem"
  zipDirectory :: "string \<Rightarrow> string \<Rightarrow> step"
  sfdcClient_deploy :: "string \<Rightarrow> filesystem \<Rightarrow> (error \<times> filesystem) + json \<times> filesystem"

text \<open>\<^verbatim>\<open>deployResult.details.retrieveResult\<close>, which throws when \<^verbatim>\<open>details\<close> is missing.\<close>

definition details_retrieveResult :: "json \<Rightarrow> error + json option" where
  "details_retrieveResult deployResult =
     (case member (Some deployResult) ''details'' of
        Inl e \<Rightarrow> Inl e
      | Inr details \<Rightarrow> member details ''retrieveResult'')"

definition retrieveResult_fileProperties :: "json option \<Rightarrow> json option" where
  "retrieveResult_fileProperties retrieveResult =
     (case retrieveResult of Some (JObj rr) \<Rightarrow> get_prop rr ''fileProperties'' | _ \<Rightarrow> None)"

text \<open>The deploy result after \<^verbatim>\<open>updateLocalStore\<close> has marked its file properties in place.\<close>

definition with_fileProperties :: "json \<Rightarrow> json option \<Rightarrow> json" where
  "with_fileProperties deployResult properties =
     (case deployResult of
        JObj r \<Rightarrow>
          (case get_prop r ''details'' of
             Some (JObj d) \<Rightarrow>
               (case get_prop d ''retrieveResult'' of
                  Some (JObj rr) \<Rightarrow>
                    JObj (obj_set r ''details''
                      (JObj (obj_set d ''retrieveResult''
                         (JObj (obj_assign rr ''fileProperties'' properties)))))
                | _ \<Rightarrow> deployResult)
           | _ \<Rightarrow> deployResult)
      | _ \<Rightarrow> deployResult)"

text \<open>The handler that receives the deploy result, and the \<^verbatim>\<open>then\<close> after it.\<close>

definition compile_merge ::
  "metadata_helper \<Rightarrow> (jobject \<Rightarrow> jobject) \<Rightarrow> (string \<Rightarrow> error + json) \<Rightarrow> string
     \<Rightarrow> json \<Rightarrow> filesystem \<Rightarrow> json outcome \<times> filesystem" where
  "compile_merge helper normalize_object parse p deployResult fs =
     (case details_retrieveResult deployResult of
        Inl e \<Rightarrow> (Rejected e, fs)
      | Inr retrieveResult \<Rightarrow>
          if truthy retrieveResult then
            (case updateLocalStore helper normalize_object parse p
                    (retrieveResult_fileProperties retrieveResult) fs of
               (Resolved u, fs') \<Rightarrow>
                 (Resolved (with_fileProperties deployResult
                              (marked_properties helper normalize_object
                                 (retrieveResult_fileProperties retrieveResult))), fs')
             | (Rejected e, fs') \<Rightarrow> (Rejected e, fs')
             | (Uncaught e, fs') \<Rightarrow> (Uncaught e, fs'))
          else (Resolved deployResult, fs))"

definition compile ::
  "compile_collaborators \<Rightarrow> metadata_helper \<Rightarrow> (jobject \<Rightarrow> jobject)
     \<Rightarrow> (string \<Rightarrow> error + json) \<Rightarrow> string \<Rightarrow> filesystem \<Rightarrow> json outcome \<times> filesystem" where
  "compile c helper normalize_object parse p fs =
     (case temp_mkdirSync c fs of
        Inl e \<Rightarrow> (Rejected e, fs)
      | Inr (newPath, fs1) \<Rightarrow>
          (case copySync fs1 (path_join p ''src'') (path_join newPath ''unpackaged'') of
             Inl (e, fs2) \<Rightarrow> (Rejected e, fs2)
           | Inr fs2 \<Rightarrow>
               (case zipDirectory c (path_join newPath ''unpackaged'') newPath fs2 of
                  Inl (e, fs3) \<Rightarrow> (Rejected e, fs3)
                | Inr fs3 \<Rightarrow>
                    (case sfdcClient_deploy c (path_join newPath ''unpackaged.zip'') fs3 of
                       Inl (e, fs4) \<Rightarrow> (Rejected e, fs4)
                     | Inr (deployResult, fs4) \<Rightarrow>
                         compile_merge helper normalize_object parse p deployResult fs4))))"

text \<open>A deploy that succeeds and returns the retrieved class, on a project whose local store
  file is missing.\<close>

definition deployed :: json where
  "deployed =
     JObj [(''success'', JBool True),
           (''details'', JObj [(''retrieveResult'', JObj [(''fileProperties'', JArr [JObj foo_cls])])])]"

definition demo_compile :: compile_collaborators where
  "demo_compile =
     \<lparr>temp_mkdirSync = (\<lambda>fs. Inr (''/tmp/mm_1'', fs_put fs ''/tmp/mm_1'' Dir)),
      zipDirectory = (\<lambda>src dst fs. Inr (fs_put fs (dst @ ''/unpackaged.zip'') (File (Bytes ''PK'')))),
      sfdcClient_deploy = (\<lambda>zip fs. Inr (deployed, fs))\<rparr>"

definition unstored_disk :: filesystem where
  "unstored_disk =
     [(''/tmp'', Dir), (''/tmp/ws'', Dir), (''/tmp/ws/Proj1'', Dir), (''/tmp/ws/Proj1/config'', Dir),
      (''/tmp/ws/Proj1/src'', Dir),
      (''/tmp/ws/Proj1/src/package.xml'', File (Bytes ''<Package/>''))]"

definition merge_disk :: filesystem where
  "merge_disk =
     unstored_disk
     @ [(''/tmp/ws/Proj1/config/.local_store'', File (JsonText (JObj [(''Bar.cls'', bar_entry)])))]"

section \<open>Creating a project on disk\<close>

text \<open>
  The collaborators of the two project-creating workflows: the network client's
  \<^verbatim>\<open>describe\<close> and \<^verbatim>\<open>retrieveUnpackaged(subscription, true, destination)\<close>, the package
  descriptor read from a manifest (\<^verbatim>\<open>new Package({path}).init()\<close>, then its
  \<^verbatim>\<open>subscription\<close>), the calls that the config bootstrap \<^verbatim>\<open>_initConfig\<close> starts, and the
  value \<^verbatim>\<open>uuid.v1()\<close> returns. The handlers of a promise chain run one after the other; the
  calls of \<^verbatim>\<open>_initConfig\<close> run side by side.
\<close>

record retrieve_collaborators =
  sfdcClient_describe :: "filesystem \<Rightarrow> (error \<times> filesystem) + json \<times> filesystem"
  sfdcClient_retrieveUnpackaged ::
    "json option \<Rightarrow> string \<Rightarrow> filesystem \<Rightarrow> (error \<times> filesystem) + json \<times> filesystem"
  Package_subscription ::
    "string \<Rightarrow> filesystem \<Rightarrow> (error \<times> filesystem) + json option \<times> filesystem"
  config_jobs :: "(project \<Rightarrow> step) list"
  storePassword :: "project \<Rightarrow> step"
  uuid_v1 :: string

subsection \<open>setDescribe\<close>

definition setDescribe :: "project \<Rightarrow> json \<Rightarrow> step" where
  "setDescribe self describe fs =
     (case path self of
        None \<Rightarrow> Inl (Error ''Arguments to path.join must be strings'', fs)
      | Some p \<Rightarrow>
          if existsSync fs (path_join p ''config'') then
            (case outputFile fs (join3 p ''config'' ''.describe'') (JsonText describe) of
               Inl e \<Rightarrow> Inl (e, fs)
             | Inr fs' \<Rightarrow> Inr fs')
          else Inr fs)"

subsection \<open>_initConfig\<close>

text \<open>
  \<^verbatim>\<open>_initConfig\<close> starts six calls at once (\<^verbatim>\<open>_writeSettings\<close>, \<^verbatim>\<open>_writeSession\<close>,
  \<^verbatim>\<open>_writeDebug\<close>, \<^verbatim>\<open>_writeEditorSettings\<close>, \<^verbatim>\<open>_refreshDescribeFromServer\<close>,
  \<^verbatim>\<open>indexLightning\<close>), waits for them with \<^verbatim>\<open>Promise.all\<close> and then runs \<^verbatim>\<open>_storePassword\<close>.
  What the calls write comes from the network client and the keychain, so each is a step of
  the collaborators; \<open>config_jobs\<close> holds them in the order in which they settle.
  \<^verbatim>\<open>Promise.all\<close> rejects with the first rejection. The calls that have not settled by then
  are still in flight: nothing cancels them, and they land later, on the disk as it then is.
  \<open>run_jobs\<close> returns them beside the error.
\<close>

fun run_jobs :: "step list \<Rightarrow> filesystem \<Rightarrow> (error \<times> filesystem \<times> step list) + filesystem" where
  "run_jobs [] fs = Inr fs"
| "run_jobs (j # js) fs =
     (case j fs of
        Inl (e, fs') \<Rightarrow> Inl (e, fs', js)
      | Inr fs' \<Rightarrow> run_jobs js fs')"

definition initConfig_in_flight ::
  "retrieve_collaborators \<Rightarrow> project \<Rightarrow> filesystem
     \<Rightarrow> (error \<times> filesystem \<times> step list) + filesystem" where
  "initConfig_in_flight c self fs =
     (case run_jobs (map (\<lambda>j. j self) (config_jobs c)) fs of
        Inl x \<Rightarrow> Inl x
      | Inr fs1 \<Rightarrow>
          (case storePassword c self fs1 of
             Inl (e, fs2) \<Rightarrow> Inl (e, fs2, [])
           | Inr fs2 \<Rightarrow> Inr fs2))"

text \<open>The promise of \<^verbatim>\<open>_initConfig\<close> by itself: how it settles, and the disk at that moment.\<close>

definition initConfig :: "retrieve_collaborators \<Rightarrow> project \<Rightarrow> step" where
  "initConfig c self fs =
     (case initConfig_in_flight c self fs of
        Inl (e, fs', in_flight) \<Rightarrow> Inl (e, fs')
      | Inr fs' \<Rightarrow> Inr fs')"




subsection \<open>retrieveAndWriteToDisk\<close>








subsection \<open>_initNewProjectFromExistingDirectory\<close>

text \<open>
  The synchronous part, inside the promise's executor, up to the copy: what is thrown here
  (and by \<^verbatim>\<open>ensureDirSync\<close> of the config directory after it) rejects the promise, and no
  handler of the chain runs.
\<close>

definition existing_directory_checks ::
  "project \<Rightarrow> filesystem \<Rightarrow> (error \<times> filesystem) + (string \<times> string \<times> filesystem)" where
  "existing_directory_checks self fs =
     (if falsy_str (workspace self) then
        Inl (Error ''Please select a workspace for this project'', fs)
      else
        (case origin self of
           None \<Rightarrow> Inl (Error ''Arguments to path.join must be strings'', fs)
         | Some orig \<Rightarrow>
             if \<not> existsSync fs (path_join orig ''src'') then
               Inl (Error ''Project must have a top-level src directory'', fs)
             else if \<not> existsSync fs (join3 orig ''src'' ''package.xml'') then
               Inl (Error ''Project must have a valid package.xml file located in the src directory'',
                    fs)
             else
               (case path_join_opt (workspace self) (name self) of
                  Inl e \<Rightarrow> Inl (e, fs)
                | Inr dest \<Rightarrow>
                    (case (if orig \<noteq> dest then
                             (if existsSync fs dest then
                                Inl (Error ''Project with this name already exists in the selected workspace'',
                                     fs)
                              else
                                (case mkdirpSync fs dest of
                                   Inl e \<Rightarrow> Inl (e, fs)
                                 | Inr fs1 \<Rightarrow> copySync fs1 orig dest))
                           else Inr fs) of
                       Inl x \<Rightarrow> Inl x
                     | Inr fs2 \<Rightarrow> Inr (orig, dest, fs2)))))"

text \<open>The handler after the retrieve, and the chain from \<^verbatim>\<open>describe\<close> to the local store.\<close>

definition existing_directory_after_retrieve ::
  "retrieve_collaborators \<Rightarrow> metadata_helper \<Rightarrow> project \<Rightarrow> string \<Rightarrow> json
     \<Rightarrow> filesystem \<Rightarrow> (error \<times> project \<times> filesystem) + (project \<times> filesystem)" where
  "existing_directory_after_retrieve c helper self p retrieveResult fs =
     (case member (Some retrieveResult) ''fileProperties'' of
        Inl e \<Rightarrow> Inl (e, self, fs)
      | Inr fileProperties \<Rightarrow>
          (let fs1 = (if existsSync fs (path_join p ''unpackaged'')
                      then removeSync fs (path_join p ''unpackaged'') else fs);
               self1 = self\<lparr>project_id := Some (uuid_v1 c)\<rparr>
           in case initConfig c self1 fs1 of
                Inl (e, fs2) \<Rightarrow> Inl (e, self1, fs2)
              | Inr fs2 \<Rightarrow>
                  (case writeLocalStore helper p fileProperties fs2 of
                     (Resolved u, fs3) \<Rightarrow> Inr (self1, fs3)
                   | (Rejected e, fs3) \<Rightarrow> Inl (e, self1, fs3)
                   | (Uncaught e, fs3) \<Rightarrow> Inl (e, self1, fs3))))"

definition existing_directory_chain ::
  "retrieve_collaborators \<Rightarrow> metadata_helper \<Rightarrow> project \<Rightarrow> string \<Rightarrow> filesystem
     \<Rightarrow> (error \<times> project \<times> filesystem) + (project \<times> filesystem)" where
  "existing_directory_chain c helper self p fs =
     (case sfdcClient_describe c fs of
        Inl (e, fs1) \<Rightarrow> Inl (e, self, fs1)
      | Inr (describe, fs1) \<Rightarrow>
          (case setDescribe self describe fs1 of
             Inl (e, fs2) \<Rightarrow> Inl (e, self, fs2)
           | Inr fs2 \<Rightarrow>
               (case Package_subscription c (join3 p ''src'' ''package.xml'') fs2 of
                  Inl (e, fs3) \<Rightarrow> Inl (e, self, fs3)
                | Inr (subscription, fs3) \<Rightarrow>
                    (case sfdcClient_retrieveUnpackaged c subscription p fs3 of
                       Inl (e, fs4) \<Rightarrow> Inl (e, self, fs4)
                     | Inr (retrieveResult, fs4) \<Rightarrow>
                         existing_directory_after_retrieve c helper self p retrieveResult fs4))))"

definition initNewProjectFromExistingDirectory ::
  "retrieve_collaborators \<Rightarrow> metadata_helper \<Rightarrow> project \<Rightarrow> filesystem
     \<Rightarrow> unit outcome \<times> project \<times> filesystem" where
  "initNewProjectFromExistingDirectory c helper self fs =
     (case existing_directory_checks self fs of
        Inl (e, fs') \<Rightarrow> (Rejected e, self, fs')
      | Inr (orig, dest, fs1) \<Rightarrow>
          (let self1 = self\<lparr>path := Some dest\<rparr> in
           case mkdirpSync fs1 (path_join dest ''config'') of
             Inl e \<Rightarrow> (Rejected e, self1, fs1)
           | Inr fs2 \<Rightarrow>
               (case existing_directory_chain c helper self1 dest fs2 of
                  Inr (self', fs') \<Rightarrow> (Resolved (), self', fs')
                | Inl (e, self', fs') \<Rightarrow>
                    (Rejected e, self',
                     (if orig \<noteq> dest \<and> existsSync fs' dest then removeSync fs' dest
                      else fs')))))"

text \<open>A retrieve that unpacks a staging folder and then fails, after a describe that
  succeeds.\<close>

definition failing_retrieve :: retrieve_collaborators where
  "failing_retrieve =
     \<lparr>sfdcClient_describe = (\<lambda>fs. Inr (JObj [], fs)),
      sfdcClient_retrieveUnpackaged =
        (\<lambda>subscription p fs. Inl (Error ''deploy failed'', fs_put fs (p @ ''/unpackaged'') Dir)),
      Package_subscription = (\<lambda>p fs. Inr (None, fs)),
      config_jobs = [],
      storePassword = (\<lambda>self. ok_step),
      uuid_v1 = ''6c84fb90-12c4-11e1-840d-7b25c5ee775a''\<rparr>"

definition workspace_disk :: filesystem where
  "workspace_disk = [(''/'', Dir), (''/tmp'', Dir), (''/tmp/ws'', Dir)]"



text \<open>
  A collaborator leaves a path in place when none of its steps, failing or succeeding, makes
  an existing entry at that path disappear.
\<close>

definition disk_after :: "(error \<times> filesystem) + ('a \<times> filesystem) \<Rightarrow> filesystem" where
  "disk_after r = (case r of Inl (e, fs) \<Rightarrow> fs | Inr (x, fs) \<Rightarrow> fs)"

definition disk_after_step :: "(error \<times> filesystem) + filesystem \<Rightarrow> filesystem" where
  "disk_after_step r = (case r of Inl (e, fs) \<Rightarrow> fs | Inr fs \<Rightarrow> fs)"

definition leaves_in_place :: "retrieve_collaborators \<Rightarrow> string \<Rightarrow> bool" where
  "leaves_in_place c q =
     (\<forall>fs. existsSync fs q \<longrightarrow>
        existsSync (disk_after (sfdcClient_describe c fs)) q
        \<and> (\<forall>s p. existsSync (disk_after (sfdcClient_retrieveUnpackaged c s p fs)) q)
        \<and> (\<forall>p. existsSync (disk_after (Package_subscription c p fs)) q)
        \<and> (\<forall>self. existsSync (disk_after_step (initConfig c self fs)) q))"

text \<open>A project directory that is its own origin, and a foreign directory to import.\<close>

definition in_place_project :: project where
  "in_place_project = new_proj1\<lparr>origin := Some ''/tmp/ws/Proj1''\<rparr>"

definition in_place_disk :: filesystem where
  "in_place_disk =
     workspace_disk
     @ [(''/tmp/ws/Proj1'', Dir), (''/tmp/ws/Proj1/src'', Dir),
        (''/tmp/ws/Proj1/src/package.xml'', File (Bytes ''<Package/>''))]"

definition imported_project :: project where
  "imported_project = new_proj1\<lparr>origin := Some ''/home/dev/Old''\<rparr>"

definition import_disk :: filesystem where
  "import_disk =
     workspace_disk
     @ [(''/home/dev/Old'', Dir), (''/home/dev/Old/src'', Dir),
        (''/home/dev/Old/src/package.xml'', File (Bytes ''<Package/>''))]"

section \<open>The metadata index\<close>

text \<open>
  A node of the org metadata index: a metadata type at the top level, its members below. A
  node without \<^verbatim>\<open>children\<close> has the empty list, and a node without \<^verbatim>\<open>select\<close> is not
  selected.
\<close>

datatype index_node =
  IndexNode (node_id: string) (xmlName: "string option") (select: bool) (visibility: bool)
    (children: "index_node list")

text \<open>The package descriptor's subscription: per metadata type, \<^verbatim>\<open>'*'\<close> or the member names.\<close>

datatype members = Wildcard | Members "string list"

type_synonym subscription = "(string \<times> members) list"

text \<open>\<^verbatim>\<open>child.select = true\<close>, for one node and for each child of a node.\<close>

fun mark_selected :: "index_node \<Rightarrow> index_node" where
  "mark_selected (IndexNode i x s v ch) = IndexNode i x True v ch"

fun select_children :: "index_node \<Rightarrow> index_node" where
  "select_children (IndexNode i x s v ch) = IndexNode i x s v (map mark_selected ch)"


text \<open>
  \<^verbatim>\<open>_.find\<close> returns the first match, and the assignments change that object in place:
  \<open>update_first\<close> is the list with its first match changed.
\<close>

fun update_first :: "('a \<Rightarrow> bool) \<Rightarrow> ('a \<Rightarrow> 'a) \<Rightarrow> 'a list \<Rightarrow> 'a list" where
  "update_first P f [] = []"
| "update_first P f (x # xs) = (if P x then f x # xs else x # update_first P f xs)"






subsection \<open>The index service\<close>




subsection \<open>getOrgMetadataIndexWithSelections\<close>







definition children_selected :: "index_node \<Rightarrow> bool" where
  "children_selected n = (\<forall>c \<in> set (children n). select c)"

section \<open>replaceLocalFiles\<close>









section \<open>Properties\<close>

subsection \<open>Strings\<close>

lemma indexOf_ge: "indexOf s pat \<ge> - 1"
  by (induction s) (auto simp: Let_def)

lemma includes_str_iff: "includes_str s pat \<longleftrightarrow> (\<exists>a b. s = a @ pat @ b)"
proof (induction s)
  case Nil
  then show ?case by (auto simp: includes_str_def)
next
  case (Cons c s)
  show ?case
  proof (cases "prefix pat (c # s)")
    case True
    then obtain b where "c # s = pat @ b" by (auto simp: prefix_def)
    then have "c # s = [] @ pat @ b" by simp
    then have "\<exists>a b. c # s = a @ pat @ b" by blast
    with True show ?thesis by (simp add: includes_str_def)
  next
    case False
    have "includes_str (c # s) pat \<longleftrightarrow> includes_str s pat"
      using False by (auto simp: includes_str_def Let_def)
    also have "\<dots> \<longleftrightarrow> (\<exists>a b. s = a @ pat @ b)" by (rule Cons.IH)
    also have "\<dots> \<longleftrightarrow> (\<exists>a b. c # s = a @ pat @ b)"
    proof
      assume "\<exists>a b. s = a @ pat @ b"
      then obtain a b where "s = a @ pat @ b" by blast
      then have "c # s = (c # a) @ pat @ b" by simp
      then show "\<exists>a b. c # s = a @ pat @ b" by blast
    next
      assume "\<exists>a b. c # s = a @ pat @ b"
      then obtain a b where ab: "c # s = a @ pat @ b" by blast
      show "\<exists>a b. s = a @ pat @ b"
      proof (cases a)
        case Nil
        with ab have "prefix pat (c # s)" by (simp add: prefix_def)
        with False show ?thesis by simp
      next
        case (Cons x a')
        with ab have "s = a' @ pat @ b" by simp
        then show ?thesis by blast
      qed
    qed
    finally show ?thesis .
  qed
qed

lemma includes_str_split:
  assumes "includes_str (a @ c # b) pat" and "c \<notin> set pat"
  shows "includes_str a pat \<or> includes_str b pat"
proof -
  from assms(1) obtain u v where uv: "a @ c # b = u @ pat @ v"
    by (auto simp: includes_str_iff)
  then consider w where "a = u @ w" "w @ c # b = pat @ v"
    | w where "a @ w = u" "c # b = w @ pat @ v"
    by (auto simp: append_eq_append_conv2)
  then show ?thesis
  proof cases
    case 1
    from 1(2) consider x where "w = pat @ x" | x where "w @ x = pat" "c # b = x @ v"
      by (auto simp: append_eq_append_conv2)
    then show ?thesis
    proof cases
      case 1
      with \<open>a = u @ w\<close> have "a = u @ pat @ x" by simp
      then show ?thesis by (auto simp: includes_str_iff)
    next
      case 2
      show ?thesis
      proof (cases x)
        case Nil
        with 2 \<open>a = u @ w\<close> have "a = u @ pat @ []" by simp
        then show ?thesis unfolding includes_str_iff by blast
      next
        case (Cons y ys)
        with 2 have "c \<in> set pat" by auto
        with assms(2) show ?thesis by simp
      qed
    qed
  next
    case 2
    show ?thesis
    proof (cases w)
      case Nil
      with 2 have pv: "c # b = pat @ v" by simp
      show ?thesis
      proof (cases pat)
        case Nil
        have "a = a @ [] @ []" by simp
        with Nil show ?thesis unfolding includes_str_iff by blast
      next
        case (Cons y ys)
        with pv have "c \<in> set pat" by auto
        with assms(2) show ?thesis by simp
      qed
    next
      case (Cons y ys)
      with 2 have "b = ys @ pat @ v" by simp
      then show ?thesis unfolding includes_str_iff by blast
    qed
  qed
qed

subsection \<open>getLocalStore\<close>

lemma includes_local_store_path:
  assumes "includes_str (local_store_path p) ''Unexpected end of input''"
  shows "includes_str p ''Unexpected end of input''"
proof -
  have eq: "local_store_path p = p @ CHR ''/'' # (''config'' @ CHR ''/'' # ''.local_store'')"
    by (simp add: local_store_path_def join3_def path_join_def)
  have "includes_str p ''Unexpected end of input'' \<or> includes_str (''config'' @ CHR ''/'' # ''.local_store'') ''Unexpected end of input''"
    using assms unfolding eq by (rule includes_str_split) simp
  moreover have "\<not> includes_str (''config'' @ CHR ''/'' # ''.local_store'') ''Unexpected end of input''"
    by (simp add: includes_str_def)
  ultimately show ?thesis by blast
qed

lemma includes_enoent:
  assumes "includes_str (message (enoent q)) ''Unexpected end of input''"
  shows "includes_str q ''Unexpected end of input''"
proof -
  have eq: "message (enoent q) = ''ENOENT, no such file or directory '' @ CHR 0x27 # (q @ CHR 0x27 # [])"
    by (simp add: enoent_def)
  have "includes_str ''ENOENT, no such file or directory '' ''Unexpected end of input'' \<or> includes_str (q @ CHR 0x27 # []) ''Unexpected end of input''"
    using assms unfolding eq by (rule includes_str_split) simp
  moreover have "\<not> includes_str ''ENOENT, no such file or directory '' ''Unexpected end of input''"
    by (simp add: includes_str_def)
  ultimately have "includes_str (q @ CHR 0x27 # []) ''Unexpected end of input''" by blast
  then have "includes_str q ''Unexpected end of input'' \<or> includes_str [] ''Unexpected end of input''"
    by (rule includes_str_split) simp
  then show ?thesis by (simp add: includes_str_def)
qed

text \<open>
  C10. \<^verbatim>\<open>getLocalStore\<close> turns a failed read into the empty store exactly when the error's
  message contains \<^verbatim>\<open>Unexpected end of input\<close>, as it does for an empty file; every other
  failed read is thrown to the caller, and so is the missing file (its message names the
  path, so the project path must not itself contain that text). A successful read is
  returned as it is.
\<close>

theorem getLocalStore_catch:
  "(\<forall>e. readJsonSync parse fs (local_store_path p) = Inl e \<longrightarrow>
         getLocalStore parse fs p =
           (if includes_str (message e) ''Unexpected end of input'' then Inr (JObj []) else Inl e))
   \<and> (\<forall>j. readJsonSync parse fs (local_store_path p) = Inr j \<longrightarrow> getLocalStore parse fs p = Inr j)
   \<and> (\<forall>s. map_of fs (local_store_path p) = Some (File (Bytes s)) \<longrightarrow> list_all json_whitespace s \<longrightarrow>
         getLocalStore parse fs p = Inr (JObj []))
   \<and> (map_of fs (local_store_path p) = None \<longrightarrow> \<not> includes_str p ''Unexpected end of input'' \<longrightarrow>
         getLocalStore parse fs p = Inl (enoent (local_store_path p)))"
proof (intro conjI allI impI)
  fix e assume "readJsonSync parse fs (local_store_path p) = Inl e"
  then show "getLocalStore parse fs p =
           (if includes_str (message e) ''Unexpected end of input'' then Inr (JObj []) else Inl e)"
    by (simp add: getLocalStore_def)
next
  fix j assume "readJsonSync parse fs (local_store_path p) = Inr j"
  then show "getLocalStore parse fs p = Inr j" by (simp add: getLocalStore_def)
next
  fix s assume "map_of fs (local_store_path p) = Some (File (Bytes s))" "list_all json_whitespace s"
  then have "readJsonSync parse fs (local_store_path p) = Inl (Error ''Unexpected end of input'')"
    by (simp add: readJsonSync_def JSON_parse_bytes_def)
  then show "getLocalStore parse fs p = Inr (JObj [])"
    by (simp add: getLocalStore_def includes_str_def)
next
  assume a: "map_of fs (local_store_path p) = None" "\<not> includes_str p ''Unexpected end of input''"
  then have r: "readJsonSync parse fs (local_store_path p) = Inl (enoent (local_store_path p))"
    by (simp add: readJsonSync_def)
  have "\<not> includes_str (message (enoent (local_store_path p))) ''Unexpected end of input''"
    using a(2) includes_enoent includes_local_store_path by blast
  with r show "getLocalStore parse fs p = Inl (enoent (local_store_path p))"
    by (simp add: getLocalStore_def)
qed

theorem getLocalStore_catch_witness:
  "getLocalStore (JSON_parse quiet_env) proj1_disk ''/tmp/ws/Proj1'' = Inr (JObj [])
   \<and> getLocalStore (JSON_parse quiet_env) [] ''/tmp/ws/Proj1''
       = Inl (enoent ''/tmp/ws/Proj1/config/.local_store'')
   \<and> getLocalStore (JSON_parse quiet_env)
        [(''/p/config/.local_store'', File (Bytes ''{,''))] ''/p'' = Inl (Error ''Unexpected token'')
   \<and> getLocalStore (JSON_parse quiet_env)
        [(''/p/config/.local_store'', File (JsonText (JObj [(''k'', JNull)])))] ''/p''
       = Inr (JObj [(''k'', JNull)])"
proof -
  have 1: "map_of proj1_disk (local_store_path ''/tmp/ws/Proj1'') = Some (File (Bytes []))"
    by (simp add: proj1_disk_def local_store_path_def join3_def path_join_def)
  have 2: "map_of ([]::filesystem) (local_store_path ''/tmp/ws/Proj1'') = None" by simp
  have 3: "\<not> includes_str ''/tmp/ws/Proj1'' ''Unexpected end of input''"
    by (simp add: includes_str_def)
  have 4: "readJsonSync (JSON_parse quiet_env) [(''/p/config/.local_store'', File (Bytes ''{,''))]
             (local_store_path ''/p'') = Inl (Error ''Unexpected token'')"
    by (simp add: readJsonSync_def JSON_parse_bytes_def quiet_env_def local_store_path_def
        join3_def path_join_def json_whitespace_def)
  have 5: "readJsonSync (JSON_parse quiet_env)
             [(''/p/config/.local_store'', File (JsonText (JObj [(''k'', JNull)])))]
             (local_store_path ''/p'') = Inr (JObj [(''k'', JNull)])"
    by (simp add: readJsonSync_def local_store_path_def join3_def path_join_def)
  have 6: "\<not> includes_str (message (Error ''Unexpected token'')) ''Unexpected end of input''"
    by (simp add: includes_str_def)
  show ?thesis
    using getLocalStore_catch [of "JSON_parse quiet_env" proj1_disk "''/tmp/ws/Proj1''"]
      getLocalStore_catch [of "JSON_parse quiet_env" "[]" "''/tmp/ws/Proj1''"]
      getLocalStore_catch [of "JSON_parse quiet_env" "[(''/p/config/.local_store'', File (Bytes ''{,''))]" "''/p''"]
      getLocalStore_catch [of "JSON_parse quiet_env" "[(''/p/config/.local_store'', File (JsonText (JObj [(''k'', JNull)])))]" "''/p''"]
      1 2 3 4 5 6
    by (simp add: local_store_path_def join3_def path_join_def)
qed

subsection \<open>_initExisting\<close>

text \<open>
  C7. When \<^verbatim>\<open>_initExisting\<close> rejects with an error, the project's \<open>valid\<close> flag is
  \<open>false\<close> if the message contains \<^verbatim>\<open>INVALID_LOGIN\<close>, \<^verbatim>\<open>EXPIRED_PASSWORD\<close> or
  \<^verbatim>\<open>LOGIN_MUST_USE_SECURITY_TOKEN\<close>, and is what it was before otherwise. The failure of
  any step of the chain rejects with that step's error; nothing escapes uncaught, and the
  operation resolves only when every step succeeded.
\<close>

theorem initExisting_failure:
  "(\<forall>e self' fs'. initExisting env self fs = (Rejected e, self', fs') \<longrightarrow>
        valid self' = (if auth_failure e then Some False else valid self))
   \<and> (\<forall>e fs'. isValid env self fs \<longrightarrow> existsSync fs (existing_path env self) \<longrightarrow>
        initExisting_chain env (existing_path env self) fs = Inl (e, fs') \<longrightarrow>
        initExisting env self fs =
          (Rejected e,
           (if auth_failure e then (existing_location env self)\<lparr>valid := Some False\<rparr>
            else existing_location env self),
           fs'))
   \<and> (\<forall>r self' fs'. initExisting env self fs = (r, self', fs') \<longrightarrow>
        (\<forall>e. r \<noteq> Uncaught e)
        \<and> (r = Resolved () \<longrightarrow> valid self' = Some True
              \<and> initExisting_chain env (existing_path env self) fs = Inr fs'))"
proof -
  have v: "valid (existing_location env self) = valid self"
    by (simp add: existing_location_def split: option.splits prod.splits)
  have nm: "\<not> auth_failure (Error ''This does not seem to be a valid MavensMate project directory.'')"
    by (simp add: auth_failure_def includes_str_def)
  show ?thesis
    by (auto simp: initExisting_def Let_def v nm split: if_splits sum.splits prod.splits)
qed

theorem initExisting_failure_witness:
  "initExisting (quiet_env\<lparr>sfdcClient_initialize := fail_step ''INVALID_LOGIN: Invalid username''\<rparr>)
       (proj1\<lparr>valid := Some True\<rparr>) proj1_disk
     = (Rejected (Error ''INVALID_LOGIN: Invalid username''),
        proj1\<lparr>workspace := Some ''/tmp/ws'', name := Some ''Proj1'', valid := Some False\<rparr>,
        proj1_disk)
   \<and> initExisting (quiet_env\<lparr>refreshDescribeFromServer := fail_step ''socket hang up''\<rparr>)
       (proj1\<lparr>valid := Some True\<rparr>) proj1_disk
     = (Rejected (Error ''socket hang up''),
        proj1\<lparr>workspace := Some ''/tmp/ws'', name := Some ''Proj1'', valid := Some True\<rparr>,
        proj1_disk)"
proof -
  let ?e1 = "quiet_env\<lparr>sfdcClient_initialize := fail_step ''INVALID_LOGIN: Invalid username''\<rparr>"
  let ?e2 = "quiet_env\<lparr>refreshDescribeFromServer := fail_step ''socket hang up''\<rparr>"
  let ?p = "proj1\<lparr>valid := Some True\<rparr>"
  have ex: "existsSync proj1_disk ''/tmp/ws/Proj1''"
    "existsSync proj1_disk (join3 ''/tmp/ws/Proj1'' ''config'' ''.settings'')"
    by (simp_all add: existsSync_def proj1_disk_def join3_def path_join_def)
  have ls: "getLocalStore (\<lambda>s. Inl (Error ''Unexpected token'')) proj1_disk ''/tmp/ws/Proj1'' = Inr (JObj [])"
    by (simp add: getLocalStore_def readJsonSync_def JSON_parse_bytes_def local_store_path_def
        join3_def path_join_def proj1_disk_def includes_str_def)
  have c1: "initExisting_chain ?e1 ''/tmp/ws/Proj1'' proj1_disk
              = Inl (Error ''INVALID_LOGIN: Invalid username'', proj1_disk)"
    by (simp add: initExisting_chain_def quiet_env_def ok_step_def fail_step_def)
  have c2: "initExisting_chain ?e2 ''/tmp/ws/Proj1'' proj1_disk
              = Inl (Error ''socket hang up'', proj1_disk)"
    by (simp add: initExisting_chain_def quiet_env_def ok_step_def fail_step_def ls)
  have a1: "auth_failure (Error ''INVALID_LOGIN: Invalid username'')"
    by (simp add: auth_failure_def includes_str_def)
  have a2: "\<not> auth_failure (Error ''socket hang up'')"
    by (simp add: auth_failure_def includes_str_def)
  have loc: "existing_path ?e1 ?p = ''/tmp/ws/Proj1''" "existing_path ?e2 ?p = ''/tmp/ws/Proj1''"
    "isValid ?e1 ?p proj1_disk" "isValid ?e2 ?p proj1_disk"
    "existing_location ?e1 ?p = proj1\<lparr>workspace := Some ''/tmp/ws'', name := Some ''Proj1'', valid := Some True\<rparr>"
    "existing_location ?e2 ?p = proj1\<lparr>workspace := Some ''/tmp/ws'', name := Some ''Proj1'', valid := Some True\<rparr>"
    using ex by (simp_all add: existing_path_def isValid_def existing_location_def proj1_def
        dirname_def basename_def)
  show ?thesis
    using initExisting_failure [of ?e1 ?p proj1_disk] initExisting_failure [of ?e2 ?p proj1_disk]
      c1 c2 a1 a2 ex loc
    by (simp add: proj1_def)
qed

subsection \<open>_initNew\<close>

lemma map_of_fs_put [simp]: "map_of (fs_put fs p n) q = (if q = p then Some n else map_of fs q)"
proof -
  have a: "map_of (filter (\<lambda>e. fst e \<noteq> p) fs) q = (if q = p then None else map_of fs q)" for fs :: filesystem
    by (induction fs) auto
  show ?thesis by (simp add: fs_put_def map_add_def a split: option.splits)
qed

lemma dirname_tmp_ws: "dirname ''/tmp/ws'' = ''/tmp''"
  by (simp add: dirname_def)

text \<open>
  C5. With workspace \<^verbatim>\<open>/tmp/ws\<close> and name \<^verbatim>\<open>Proj1\<close>: when \<^verbatim>\<open>/tmp/ws/Proj1\<close> does not
  exist (and the workspace exists or can be created under \<^verbatim>\<open>/tmp\<close>), \<^verbatim>\<open>_initNew\<close> resolves
  with the generated id, which it assigns to the project, and creates no project directory;
  when \<^verbatim>\<open>/tmp/ws/Proj1\<close> exists, it rejects with \<^verbatim>\<open>Directory already exists!\<close> and the
  project's id is left as it was.
\<close>

theorem initNew_scenario:
  assumes "workspace self = Some ''/tmp/ws''" and "name self = Some ''Proj1''"
  shows "(\<not> existsSync fs ''/tmp/ws/Proj1'' \<longrightarrow> existsSync fs ''/tmp/ws'' \<or> is_dir fs ''/tmp'' \<longrightarrow>
            (\<exists>fs'. initNew setting uuid self fs
                     = (Resolved uuid,
                        self\<lparr>path := Some ''/tmp/ws/Proj1'', project_id := Some uuid\<rparr>, fs')
                  \<and> \<not> existsSync fs' ''/tmp/ws/Proj1''))
       \<and> (existsSync fs ''/tmp/ws/Proj1'' \<longrightarrow> existsSync fs ''/tmp/ws'' \<longrightarrow>
            initNew setting uuid self fs
              = (Rejected (Error ''Directory already exists!''),
                 self\<lparr>path := Some ''/tmp/ws/Proj1''\<rparr>, fs))"
proof (intro conjI impI)
  assume a: "\<not> existsSync fs ''/tmp/ws/Proj1''" "existsSync fs ''/tmp/ws'' \<or> is_dir fs ''/tmp''"
  show "\<exists>fs'. initNew setting uuid self fs
                     = (Resolved uuid,
                        self\<lparr>path := Some ''/tmp/ws/Proj1'', project_id := Some uuid\<rparr>, fs')
                  \<and> \<not> existsSync fs' ''/tmp/ws/Proj1''"
  proof (cases "existsSync fs ''/tmp/ws''")
    case True
    with assms a(1) show ?thesis
      by (simp add: initNew_def initNew_workspace_def falsy_str_def existsSync_opt_def
          path_join_opt_def path_join_def)
  next
    case False
    with a(2) have d: "is_dir fs ''/tmp''" by simp
    have mk: "mkdirSync fs ''/tmp/ws'' = Inr (fs_put fs ''/tmp/ws'' Dir)"
      using False d by (simp add: mkdirSync_def dirname_tmp_ws)
    have ne: "\<not> existsSync (fs_put fs ''/tmp/ws'' Dir) ''/tmp/ws/Proj1''"
      using a(1) by (simp add: existsSync_def)
    show ?thesis
      using assms False mk ne
      by (simp add: initNew_def initNew_workspace_def falsy_str_def existsSync_opt_def
          path_join_opt_def path_join_def)
  qed
next
  assume "existsSync fs ''/tmp/ws/Proj1''" "existsSync fs ''/tmp/ws''"
  with assms show "initNew setting uuid self fs
              = (Rejected (Error ''Directory already exists!''),
                 self\<lparr>path := Some ''/tmp/ws/Proj1''\<rparr>, fs)"
    by (simp add: initNew_def initNew_workspace_def falsy_str_def existsSync_opt_def
        path_join_opt_def path_join_def)
qed

theorem initNew_scenario_witness:
  "initNew WsOther ''6c84fb90-12c4-11e1-840d-7b25c5ee775a'' new_proj1 [(''/'', Dir), (''/tmp'', Dir)]
     = (Resolved ''6c84fb90-12c4-11e1-840d-7b25c5ee775a'',
        new_proj1\<lparr>path := Some ''/tmp/ws/Proj1'',
                  project_id := Some ''6c84fb90-12c4-11e1-840d-7b25c5ee775a''\<rparr>,
        [(''/'', Dir), (''/tmp'', Dir), (''/tmp/ws'', Dir)])
   \<and> initNew WsOther ''7d95ac01-12c4-11e1-840d-7b25c5ee775a'' new_proj1
        [(''/'', Dir), (''/tmp'', Dir), (''/tmp/ws'', Dir), (''/tmp/ws/Proj1'', Dir)]
     = (Rejected (Error ''Directory already exists!''),
        new_proj1\<lparr>path := Some ''/tmp/ws/Proj1''\<rparr>,
        [(''/'', Dir), (''/tmp'', Dir), (''/tmp/ws'', Dir), (''/tmp/ws/Proj1'', Dir)])
   \<and> project_id (new_proj1\<lparr>path := Some ''/tmp/ws/Proj1''\<rparr>) = None"
proof -
  let ?fs1 = "[(''/'', Dir), (''/tmp'', Dir)] :: filesystem"
  let ?fs2 = "[(''/'', Dir), (''/tmp'', Dir), (''/tmp/ws'', Dir), (''/tmp/ws/Proj1'', Dir)] :: filesystem"
  have w: "workspace new_proj1 = Some ''/tmp/ws''" "name new_proj1 = Some ''Proj1''"
    by (simp_all add: new_proj1_def)
  have h1: "\<not> existsSync ?fs1 ''/tmp/ws/Proj1''" "is_dir ?fs1 ''/tmp''" "\<not> existsSync ?fs1 ''/tmp/ws''"
    by (simp_all add: existsSync_def is_dir_def)
  have h2: "existsSync ?fs2 ''/tmp/ws/Proj1''" "existsSync ?fs2 ''/tmp/ws''"
    by (simp_all add: existsSync_def)
  have r1: "initNew WsOther ''6c84fb90-12c4-11e1-840d-7b25c5ee775a'' new_proj1 ?fs1
     = (Resolved ''6c84fb90-12c4-11e1-840d-7b25c5ee775a'',
        new_proj1\<lparr>path := Some ''/tmp/ws/Proj1'',
                  project_id := Some ''6c84fb90-12c4-11e1-840d-7b25c5ee775a''\<rparr>,
        [(''/'', Dir), (''/tmp'', Dir), (''/tmp/ws'', Dir)])"
    using initNew_scenario [OF w, of ?fs1 WsOther "''6c84fb90-12c4-11e1-840d-7b25c5ee775a''"] h1
    by (auto simp: initNew_def initNew_workspace_def falsy_str_def existsSync_opt_def
        path_join_opt_def path_join_def new_proj1_def mkdirSync_def dirname_def is_dir_def
        fs_put_def existsSync_def)
  have r2: "initNew WsOther ''7d95ac01-12c4-11e1-840d-7b25c5ee775a'' new_proj1 ?fs2
     = (Rejected (Error ''Directory already exists!''),
        new_proj1\<lparr>path := Some ''/tmp/ws/Proj1''\<rparr>, ?fs2)"
    using initNew_scenario [OF w, of ?fs2 WsOther "''7d95ac01-12c4-11e1-840d-7b25c5ee775a''"] h2
    by simp
  show ?thesis using r1 r2 by (simp add: new_proj1_def)
qed

subsection \<open>The store loop\<close>

lemma map_of_obj_set: "map_of (obj_set S k v) = (map_of S)(k \<mapsto> v)"
  by (induction S) (auto simp: fun_eq_iff)

lemma keys_obj_set:
  "map fst (obj_set S k v) = (if k \<in> fst ` set S then map fst S else map fst S @ [k])"
  by (induction S) (force simp: image_iff)+

lemma distinct_obj_set: "distinct (map fst S) \<Longrightarrow> distinct (map fst (obj_set S k v))"
  by (simp add: keys_obj_set)

lemma get_prop_obj_set: "get_prop (obj_set S k v) k' = (if k' = k then Some v else get_prop S k')"
  by (simp add: get_prop_def map_of_obj_set)

lemma store_each_object:
  "store_each f vs (JObj S) = Inr st \<Longrightarrow> \<exists>S'. st = JObj S'"
  by (induction vs arbitrary: S)
    (auto simp: store_set_def split: sum.splits option.splits)

lemma store_each_frame:
  "store_each f vs (JObj S) = Inr (JObj S') \<Longrightarrow>
   (\<forall>v\<in>set vs. \<forall>x. f v \<noteq> Inr (Some (k, x))) \<Longrightarrow> map_of S' k = map_of S k"
proof (induction vs arbitrary: S)
  case Nil
  then show ?case by simp
next
  case (Cons v vs)
  show ?case
  proof (cases "f v")
    case (Inl e)
    with Cons.prems show ?thesis by simp
  next
    case (Inr r)
    show ?thesis
    proof (cases r)
      case None
      with Inr Cons show ?thesis by simp
    next
      case (Some kx)
      obtain k' x where kx: "kx = (k', x)" by (cases kx)
      with Some Inr Cons.prems(2) have ne: "k' \<noteq> k" by auto
      from Cons.prems(1) Inr Some kx
      have "store_each f vs (JObj (obj_set S k' x)) = Inr (JObj S')"
        by (simp add: store_set_def)
      then have "map_of S' k = map_of (obj_set S k' x) k"
        using Cons.prems(2) by (intro Cons.IH) auto
      with ne show ?thesis by (simp add: map_of_obj_set)
    qed
  qed
qed

lemma store_each_origin:
  "store_each f vs (JObj S) = Inr (JObj S') \<Longrightarrow> map_of S' k = Some x \<Longrightarrow>
   map_of S k = Some x \<or> (\<exists>v\<in>set vs. f v = Inr (Some (k, x)))"
proof (induction vs arbitrary: S)
  case Nil
  then show ?case by simp
next
  case (Cons v vs)
  show ?case
  proof (cases "f v")
    case (Inl e)
    with Cons.prems show ?thesis by simp
  next
    case (Inr r)
    show ?thesis
    proof (cases r)
      case None
      with Inr Cons show ?thesis by auto
    next
      case (Some kx)
      obtain k' x' where kx: "kx = (k', x')" by (cases kx)
      from Cons.prems(1) Inr Some kx
      have "store_each f vs (JObj (obj_set S k' x')) = Inr (JObj S')"
        by (simp add: store_set_def)
      from Cons.IH [OF this Cons.prems(2)]
      show ?thesis using Inr Some kx
        by (auto simp: map_of_obj_set split: if_splits)
    qed
  qed
qed

lemma store_each_present:
  "store_each f vs (JObj S) = Inr (JObj S') \<Longrightarrow> v \<in> set vs \<Longrightarrow> f v = Inr (Some (k, x)) \<Longrightarrow>
   \<exists>x'. map_of S' k = Some x' \<and> (\<exists>v'\<in>set vs. f v' = Inr (Some (k, x')))"
proof (induction vs arbitrary: S v x)
  case Nil
  then show ?case by simp
next
  case (Cons w ws)
  show ?case
  proof (cases "f w")
    case (Inl e)
    with Cons.prems show ?thesis by simp
  next
    case (Inr r)
    show ?thesis
    proof (cases r)
      case None
      with Inr Cons.prems have "store_each f ws (JObj S) = Inr (JObj S')" "v \<in> set ws"
        by auto
      from Cons.IH [OF this Cons.prems(3)] show ?thesis by auto
    next
      case (Some kx)
      obtain k' x' where kx: "kx = (k', x')" by (cases kx)
      from Cons.prems(1) Inr Some kx
      have run: "store_each f ws (JObj (obj_set S k' x')) = Inr (JObj S')"
        by (simp add: store_set_def)
      show ?thesis
      proof (cases "v \<in> set ws")
        case True
        from Cons.IH [OF run True Cons.prems(3)] show ?thesis by auto
      next
        case False
        with Cons.prems(2) have "v = w" by simp
        with Inr Some kx Cons.prems(3) have eq: "k' = k" "x' = x" by auto
        have "map_of (obj_set S k' x') k = Some x" using eq by (simp add: map_of_obj_set)
        show ?thesis
        proof (cases "\<exists>u\<in>set ws. \<exists>y. f u = Inr (Some (k, y))")
          case True
          then obtain u y where "u \<in> set ws" "f u = Inr (Some (k, y))" by blast
          from Cons.IH [OF run this] show ?thesis by auto
        next
          case False
          then have "map_of S' k = map_of (obj_set S k' x') k"
            using run by (intro store_each_frame) auto
          then have "map_of S' k = Some x" using eq by (simp add: map_of_obj_set)
          moreover have "f w = Inr (Some (k, x))" using Inr Some kx eq by simp
          ultimately show ?thesis by auto
        qed
      qed
    qed
  qed
qed

lemma store_each_distinct:
  "store_each f vs (JObj S) = Inr (JObj S') \<Longrightarrow> distinct (map fst S) \<Longrightarrow> distinct (map fst S')"
proof (induction vs arbitrary: S)
  case Nil
  then show ?case by simp
next
  case (Cons v vs)
  then show ?case
    by (auto simp: store_set_def distinct_obj_set split: sum.splits option.splits)
qed

lemma store_each_succeeds:
  "(\<forall>v\<in>set vs. \<exists>r. f v = Inr r) \<Longrightarrow> \<exists>S'. store_each f vs (JObj S) = Inr (JObj S')"
proof (induction vs arbitrary: S)
  case Nil
  then show ?case by simp
next
  case (Cons v vs)
  then obtain r where r: "f v = Inr r" by auto
  show ?case
  proof (cases r)
    case None
    with r Cons show ?thesis by simp
  next
    case (Some kx)
    obtain k x where "kx = (k, x)" by (cases kx)
    with r Some Cons show ?thesis by (simp add: store_set_def)
  qed
qed

lemma dirname_append:
  assumes "CHR ''/'' \<notin> set b" and "a \<noteq> []"
  shows "dirname (a @ ''/'' @ b) = a"
proof -
  have "takeWhile (\<lambda>c. c \<noteq> CHR ''/'') (rev b @ CHR ''/'' # rev a) = rev b"
    using assms(1) by (subst takeWhile_append2) auto
  have "dropWhile (\<lambda>c. c \<noteq> CHR ''/'') (rev b @ CHR ''/'' # rev a) = CHR ''/'' # rev a"
    using assms(1) by (subst dropWhile_append2) auto
  then show ?thesis using assms(2) by (simp add: dirname_def)
qed

lemma dirname_local_store_path: "dirname (local_store_path p) = path_join p ''config''"
proof -
  have "local_store_path p = (p @ ''/config'') @ ''/'' @ ''.local_store''"
    by (simp add: local_store_path_def join3_def path_join_def)
  then show ?thesis using dirname_append [of "''.local_store''" "p @ ''/config''"]
    by (simp add: path_join_def)
qed

lemma outputFile_written: "outputFile fs q c = Inr fs' \<Longrightarrow> map_of fs' q = Some (File c)"
  by (auto simp: outputFile_def writeFileSync_def map_of_fs_put split: if_splits sum.splits)

lemma outputFile_succeeds:
  "is_dir fs (dirname q) \<Longrightarrow> \<not> is_dir fs q \<Longrightarrow> outputFile fs q c = Inr (fs_put fs q (File c))"
  by (simp add: outputFile_def writeFileSync_def existsSync_def is_dir_def)

lemma getLocalStore_written:
  "map_of fs (local_store_path p) = Some (File (JsonText j)) \<Longrightarrow> getLocalStore parse fs p = Inr j"
  by (simp add: getLocalStore_def readJsonSync_def)

lemma getLocalStore_not_dir:
  "getLocalStore parse fs p = Inr j \<Longrightarrow> \<not> is_dir fs (local_store_path p)"
  by (auto simp: getLocalStore_def readJsonSync_def is_dir_def includes_str_def split: sum.splits if_splits)

lemma indexOf_minus_one: "indexOf s pat = - 1 \<longleftrightarrow> \<not> includes_str s pat"
  using indexOf_ge [of s pat] by (auto simp: includes_str_def)

lemma get_prop_mark_clean: "mark_clean fp = JObj e \<Longrightarrow> get_prop e ''mmState'' = Some (JStr ''clean'')"
  by (auto simp: mark_clean_def get_prop_obj_set)

subsection \<open>_writeLocalStore\<close>

lemma writeLocalStore_entry_cases:
  assumes "writeLocalStore_entry helper v = Inr (Some (k, x))"
  shows "\<exists>fp fullName mt. v = Some (JObj fp)
           \<and> get_prop fp ''fullName'' = Some (JStr fullName)
           \<and> getTypeByPath helper (get_prop fp ''fileName'') = Inr (Some mt)
           \<and> \<not> includes_str fullName ''package.xml''
           \<and> k = fullName @ ''.'' @ str_or_undefined (mt_suffix mt)
           \<and> x = mark_clean fp"
proof -
  from assms obtain fp where fp: "view_object v = Some fp"
    by (auto simp: writeLocalStore_entry_def split: option.splits)
  from assms fp obtain fullName where fn: "get_prop fp ''fullName'' = Some (JStr fullName)"
    by (auto simp: writeLocalStore_entry_def split: option.splits sum.splits json.splits)
  have "fp \<noteq> []" using fn by (auto simp: get_prop_def)
  with fp have v: "v = Some (JObj fp)"
    by (cases v rule: view_object.cases) auto
  from assms fp fn show ?thesis unfolding v
    by (auto simp: writeLocalStore_entry_def indexOf_minus_one
        split: option.splits sum.splits if_splits)
qed

lemma writeLocalStore_entry_stored:
  assumes "get_prop fp ''fullName'' = Some (JStr fullName)"
    and "getTypeByPath helper (get_prop fp ''fileName'') = Inr (Some mt)"
    and "\<not> includes_str fullName ''package.xml''"
  shows "writeLocalStore_entry helper (Some (JObj fp))
           = Inr (Some (fullName @ ''.'' @ str_or_undefined (mt_suffix mt), mark_clean fp))"
  using assms by (simp add: writeLocalStore_entry_def indexOf_minus_one)

text \<open>
  A document whose type the registry resolves, but whose \<open>fullName\<close> contains the text
  \<^verbatim>\<open>package.xml\<close>: the test \<^verbatim>\<open>fp.fullName.indexOf('package.xml') === -1\<close> skips it as if it
  were the manifest, and the store read back is empty.
\<close>

theorem writeLocalStore_drops_document:
  "getTypeByPath document_helper (get_prop legal_document ''fileName'') = Inr (Some document)
   \<and> fst (writeLocalStore document_helper ''/tmp/ws/Proj1'' (Some (JArr [JObj legal_document]))
             stored_disk) = Resolved ()
   \<and> getLocalStore (\<lambda>s. Inl (Error ''Unexpected token''))
        (snd (writeLocalStore document_helper ''/tmp/ws/Proj1'' (Some (JArr [JObj legal_document]))
                stored_disk)) ''/tmp/ws/Proj1''
       = Inr (JObj [])"
  by code_simp

text \<open>
  C2 (as amended). When \<^verbatim>\<open>_writeLocalStore(props)\<close> resolves, \<^verbatim>\<open>getLocalStore()\<close> reads back
  an object with one entry per key in which: every file property whose type
  \<^verbatim>\<open>getTypeByPath\<close> resolves from its \<open>fileName\<close>, and whose \<open>fullName\<close> does not contain the
  text \<^verbatim>\<open>package.xml\<close> anywhere, has an entry under \<open>fullName.suffix\<close> carrying
  \<^verbatim>\<open>mmState = 'clean'\<close> (properties with the same key share it); and every entry is such a
  property marked clean under that key, so properties of unresolved type, every property
  whose \<open>fullName\<close> contains \<^verbatim>\<open>package.xml\<close> and whatever the store held before are absent.
  It resolves whenever every property is an object with a string \<open>fullName\<close> on which the
  registry does not throw and the config directory exists.
\<close>

theorem writeLocalStore_then_getLocalStore:
  "(\<forall>fs'. writeLocalStore helper p fileProperties fs = (Resolved (), fs') \<longrightarrow>
      (\<exists>S. getLocalStore parse fs' p = Inr (JObj S) \<and> distinct (map fst S)
         \<and> (\<forall>fp fullName mt. Some (JObj fp) \<in> set (as_array fileProperties)
              \<longrightarrow> get_prop fp ''fullName'' = Some (JStr fullName)
              \<longrightarrow> getTypeByPath helper (get_prop fp ''fileName'') = Inr (Some mt)
              \<longrightarrow> \<not> includes_str fullName ''package.xml''
              \<longrightarrow> (\<exists>e. map_of S (fullName @ ''.'' @ str_or_undefined (mt_suffix mt)) = Some (JObj e)
                     \<and> get_prop e ''mmState'' = Some (JStr ''clean'')))
         \<and> (\<forall>k x. map_of S k = Some x \<longrightarrow>
              (\<exists>fp fullName mt. Some (JObj fp) \<in> set (as_array fileProperties)
                 \<and> get_prop fp ''fullName'' = Some (JStr fullName)
                 \<and> getTypeByPath helper (get_prop fp ''fileName'') = Inr (Some mt)
                 \<and> \<not> includes_str fullName ''package.xml''
                 \<and> k = fullName @ ''.'' @ str_or_undefined (mt_suffix mt)
                 \<and> x = mark_clean fp))))
   \<and> ((\<forall>v\<in>set (as_array fileProperties). \<exists>fp fullName r. v = Some (JObj fp)
           \<and> get_prop fp ''fullName'' = Some (JStr fullName)
           \<and> getTypeByPath helper (get_prop fp ''fileName'') = Inr r)
        \<longrightarrow> is_dir fs (path_join p ''config'') \<longrightarrow> \<not> is_dir fs (local_store_path p)
        \<longrightarrow> (\<exists>fs'. writeLocalStore helper p fileProperties fs = (Resolved (), fs')))"
proof (intro conjI allI impI)
  fix fs'
  assume res: "writeLocalStore helper p fileProperties fs = (Resolved (), fs')"
  let ?vs = "as_array fileProperties"
  let ?f = "writeLocalStore_entry helper"
  from res obtain store where
    run: "store_each ?f ?vs (JObj []) = Inr store"
    and out: "outputFile fs (local_store_path p) (JsonText store) = Inr fs'"
    by (auto simp: writeLocalStore_def split: sum.splits)
  from store_each_object [OF run] obtain S where S: "store = JObj S" by blast
  have read: "getLocalStore parse fs' p = Inr (JObj S)"
    using outputFile_written [OF out] S by (simp add: getLocalStore_written)
  have dist: "distinct (map fst S)"
    using store_each_distinct [of ?f ?vs "[]" S] run S by simp
  have present: "\<exists>e. map_of S (fullName @ ''.'' @ str_or_undefined (mt_suffix mt)) = Some (JObj e)
                     \<and> get_prop e ''mmState'' = Some (JStr ''clean'')"
    if "Some (JObj fp) \<in> set ?vs" "get_prop fp ''fullName'' = Some (JStr fullName)"
      "getTypeByPath helper (get_prop fp ''fileName'') = Inr (Some mt)"
      "\<not> includes_str fullName ''package.xml''" for fp fullName mt
  proof -
    let ?k = "fullName @ ''.'' @ str_or_undefined (mt_suffix mt)"
    have "?f (Some (JObj fp)) = Inr (Some (?k, mark_clean fp))"
      using that by (simp add: writeLocalStore_entry_stored)
    from store_each_present [OF run [unfolded S] that(1) this]
    obtain x' v' where x': "map_of S ?k = Some x'" "v' \<in> set ?vs" "?f v' = Inr (Some (?k, x'))"
      by blast
    from writeLocalStore_entry_cases [OF x'(3)] obtain fp' where "x' = mark_clean fp'" by blast
    then have "x' = JObj (obj_set fp' ''mmState'' (JStr ''clean''))" by (simp add: mark_clean_def)
    with x'(1) show ?thesis by (auto simp: get_prop_obj_set)
  qed
  have origin: "\<exists>fp fullName mt. Some (JObj fp) \<in> set ?vs
                 \<and> get_prop fp ''fullName'' = Some (JStr fullName)
                 \<and> getTypeByPath helper (get_prop fp ''fileName'') = Inr (Some mt)
                 \<and> \<not> includes_str fullName ''package.xml''
                 \<and> k = fullName @ ''.'' @ str_or_undefined (mt_suffix mt)
                 \<and> x = mark_clean fp"
    if "map_of S k = Some x" for k x
  proof -
    from store_each_origin [OF run [unfolded S] that]
    obtain v where v: "v \<in> set ?vs" "?f v = Inr (Some (k, x))" by auto
    from writeLocalStore_entry_cases [OF v(2)] v(1) show ?thesis by blast
  qed
  show "\<exists>S. getLocalStore parse fs' p = Inr (JObj S) \<and> distinct (map fst S)
         \<and> (\<forall>fp fullName mt. Some (JObj fp) \<in> set (as_array fileProperties)
              \<longrightarrow> get_prop fp ''fullName'' = Some (JStr fullName)
              \<longrightarrow> getTypeByPath helper (get_prop fp ''fileName'') = Inr (Some mt)
              \<longrightarrow> \<not> includes_str fullName ''package.xml''
              \<longrightarrow> (\<exists>e. map_of S (fullName @ ''.'' @ str_or_undefined (mt_suffix mt)) = Some (JObj e)
                     \<and> get_prop e ''mmState'' = Some (JStr ''clean'')))
         \<and> (\<forall>k x. map_of S k = Some x \<longrightarrow>
              (\<exists>fp fullName mt. Some (JObj fp) \<in> set (as_array fileProperties)
                 \<and> get_prop fp ''fullName'' = Some (JStr fullName)
                 \<and> getTypeByPath helper (get_prop fp ''fileName'') = Inr (Some mt)
                 \<and> \<not> includes_str fullName ''package.xml''
                 \<and> k = fullName @ ''.'' @ str_or_undefined (mt_suffix mt)
                 \<and> x = mark_clean fp))"
    using read dist present origin by blast
next
  let ?vs = "as_array fileProperties"
  let ?f = "writeLocalStore_entry helper"
  assume wf: "\<forall>v\<in>set ?vs. \<exists>fp fullName r. v = Some (JObj fp)
           \<and> get_prop fp ''fullName'' = Some (JStr fullName)
           \<and> getTypeByPath helper (get_prop fp ''fileName'') = Inr r"
    and d: "is_dir fs (path_join p ''config'')" "\<not> is_dir fs (local_store_path p)"
  have "\<forall>v\<in>set ?vs. \<exists>r. ?f v = Inr r"
  proof
    fix v assume "v \<in> set ?vs"
    with wf obtain fp fullName r where "v = Some (JObj fp)"
      "get_prop fp ''fullName'' = Some (JStr fullName)"
      "getTypeByPath helper (get_prop fp ''fileName'') = Inr r" by blast
    then show "\<exists>r. ?f v = Inr r"
      by (simp add: writeLocalStore_entry_def split: option.splits)
  qed
  from store_each_succeeds [OF this] obtain S where "store_each ?f ?vs (JObj []) = Inr (JObj S)"
    by blast
  moreover have "outputFile fs (local_store_path p) (JsonText (JObj S))
                   = Inr (fs_put fs (local_store_path p) (File (JsonText (JObj S))))"
    using d by (simp add: outputFile_succeeds dirname_local_store_path)
  ultimately show "\<exists>fs'. writeLocalStore helper p fileProperties fs = (Resolved (), fs')"
    by (simp add: writeLocalStore_def)
qed

theorem writeLocalStore_then_getLocalStore_witness:
  "writeLocalStore demo_helper ''/tmp/ws/Proj1'' (Some demo_properties) stored_disk
     = (Resolved (),
        [(''/tmp/ws/Proj1'', Dir), (''/tmp/ws/Proj1/config'', Dir),
         (''/tmp/ws/Proj1/config/.local_store'',
          File (JsonText (JObj [(''Foo.cls'', mark_clean foo_cls)])))])
   \<and> getLocalStore (\<lambda>s. Inl (Error ''Unexpected token''))
        [(''/tmp/ws/Proj1'', Dir), (''/tmp/ws/Proj1/config'', Dir),
         (''/tmp/ws/Proj1/config/.local_store'',
          File (JsonText (JObj [(''Foo.cls'', mark_clean foo_cls)])))] ''/tmp/ws/Proj1''
     = Inr (JObj [(''Foo.cls'', mark_clean foo_cls)])"
proof -
  have e1: "writeLocalStore_entry demo_helper (Some (JObj foo_cls))
              = Inr (Some (''Foo.cls'', mark_clean foo_cls))"
    by (simp add: writeLocalStore_entry_def demo_helper_def foo_cls_def get_prop_def
        includes_str_def apexClass_def str_or_undefined_def)
  have e2: "writeLocalStore_entry demo_helper
              (Some (JObj [(''fileName'', JStr ''unpackaged/package.xml''),
                           (''fullName'', JStr ''unpackaged/package.xml'')])) = Inr None"
    by (simp add: writeLocalStore_entry_def demo_helper_def get_prop_def includes_str_def)
  have e3: "writeLocalStore_entry demo_helper
              (Some (JObj [(''fileName'', JStr ''unpackaged/misc/Thing.xyz''),
                           (''fullName'', JStr ''Thing'')])) = Inr None"
    by (simp add: writeLocalStore_entry_def demo_helper_def get_prop_def includes_str_def)
  have run: "store_each (writeLocalStore_entry demo_helper) (as_array (Some demo_properties)) (JObj [])
               = Inr (JObj [(''Foo.cls'', mark_clean foo_cls)])"
    by (simp add: as_array_def demo_properties_def e1 e2 e3 store_set_def)
  have dn: "dirname ''/tmp/ws/Proj1/config/.local_store'' = ''/tmp/ws/Proj1/config''"
    by (simp add: dirname_def)
  have w: "writeLocalStore demo_helper ''/tmp/ws/Proj1'' (Some demo_properties) stored_disk
     = (Resolved (),
        [(''/tmp/ws/Proj1'', Dir), (''/tmp/ws/Proj1/config'', Dir),
         (''/tmp/ws/Proj1/config/.local_store'',
          File (JsonText (JObj [(''Foo.cls'', mark_clean foo_cls)])))])"
    by (simp add: writeLocalStore_def run outputFile_def local_store_path_def join3_def
        path_join_def dn existsSync_def stored_disk_def writeFileSync_def is_dir_def fs_put_def)
  from writeLocalStore_then_getLocalStore [of demo_helper "''/tmp/ws/Proj1''" "Some demo_properties"
      stored_disk "\<lambda>s. Inl (Error ''Unexpected token'')"] w
  obtain S where S: "getLocalStore (\<lambda>s. Inl (Error ''Unexpected token''))
        [(''/tmp/ws/Proj1'', Dir), (''/tmp/ws/Proj1/config'', Dir),
         (''/tmp/ws/Proj1/config/.local_store'',
          File (JsonText (JObj [(''Foo.cls'', mark_clean foo_cls)])))] ''/tmp/ws/Proj1'' = Inr (JObj S)"
    by blast
  then have "S = [(''Foo.cls'', mark_clean foo_cls)]"
    by (simp add: getLocalStore_def readJsonSync_def local_store_path_def join3_def path_join_def)
  with S w show ?thesis by simp
qed

subsection \<open>updateLocalStore\<close>

lemma store_assignment_clean:
  "store_assignment metadataType fp = Inr (Some (k, x)) \<Longrightarrow>
   \<exists>e. x = JObj e \<and> get_prop e ''mmState'' = Some (JStr ''clean'')"
  by (auto simp: store_assignment_def mark_clean_def get_prop_obj_set
      split: option.splits if_splits json.splits)

lemma updateLocalStore_entry_clean:
  "updateLocalStore_entry helper nz v = Inr (Some (k, x)) \<Longrightarrow>
   \<exists>e. x = JObj e \<and> get_prop e ''mmState'' = Some (JStr ''clean'')"
  by (auto simp: updateLocalStore_entry_def Let_def dest: store_assignment_clean
      split: option.splits sum.splits)

text \<open>
  C3. With a local store \<open>S\<close> on disk, when \<^verbatim>\<open>updateLocalStore(props)\<close> resolves the store
  read back agrees with \<open>S\<close> on every key that no property of \<open>props\<close> is stored under;
  an entry that differs from \<open>S\<close> is the value some property assigns under its key; and every
  key a property is stored under holds an entry marked clean. When it rejects, the disk is as
  before. It resolves whenever no round of the loop throws and the config directory exists.
\<close>

theorem updateLocalStore_merges:
  assumes "getLocalStore parse fs p = Inr (JObj S)"
  shows
  "(\<forall>fs'. updateLocalStore helper nz parse p fileProperties fs = (Resolved (), fs') \<longrightarrow>
      (\<exists>S'. getLocalStore parse fs' p = Inr (JObj S')
         \<and> (\<forall>k. (\<forall>v\<in>set (as_array fileProperties). \<forall>x.
                    updateLocalStore_entry helper nz v \<noteq> Inr (Some (k, x)))
              \<longrightarrow> map_of S' k = map_of S k)
         \<and> (\<forall>k x. map_of S' k = Some x \<longrightarrow>
              map_of S k = Some x
              \<or> (\<exists>v\<in>set (as_array fileProperties).
                    updateLocalStore_entry helper nz v = Inr (Some (k, x))))
         \<and> (\<forall>v\<in>set (as_array fileProperties). \<forall>k x.
              updateLocalStore_entry helper nz v = Inr (Some (k, x)) \<longrightarrow>
              (\<exists>e. map_of S' k = Some (JObj e)
                 \<and> get_prop e ''mmState'' = Some (JStr ''clean'')))))
   \<and> (\<forall>e fs'. updateLocalStore helper nz parse p fileProperties fs = (Rejected e, fs')
        \<longrightarrow> fs' = fs)
   \<and> ((\<forall>v\<in>set (as_array fileProperties). \<exists>r. updateLocalStore_entry helper nz v = Inr r)
        \<longrightarrow> is_dir fs (path_join p ''config'')
        \<longrightarrow> (\<exists>fs'. updateLocalStore helper nz parse p fileProperties fs = (Resolved (), fs')))"
proof (intro conjI allI impI)
  fix fs'
  let ?vs = "as_array fileProperties"
  let ?f = "updateLocalStore_entry helper nz"
  assume res: "updateLocalStore helper nz parse p fileProperties fs = (Resolved (), fs')"
  with assms obtain store where
    run: "store_each ?f ?vs (JObj S) = Inr store"
    and out: "outputFile fs (local_store_path p) (JsonText store) = Inr fs'"
    by (auto simp: updateLocalStore_def split: sum.splits)
  from store_each_object [OF run] obtain S' where S': "store = JObj S'" by blast
  note run' = run [unfolded S']
  have read: "getLocalStore parse fs' p = Inr (JObj S')"
    using outputFile_written [OF out] S' by (simp add: getLocalStore_written)
  have frame: "map_of S' k = map_of S k"
    if "\<forall>v\<in>set ?vs. \<forall>x. ?f v \<noteq> Inr (Some (k, x))" for k
    using store_each_frame [OF run' that] .
  have origin: "map_of S k = Some x \<or> (\<exists>v\<in>set ?vs. ?f v = Inr (Some (k, x)))"
    if "map_of S' k = Some x" for k x
    using store_each_origin [OF run' that] .
  have present: "\<exists>e. map_of S' k = Some (JObj e) \<and> get_prop e ''mmState'' = Some (JStr ''clean'')"
    if "v \<in> set ?vs" "?f v = Inr (Some (k, x))" for v k x
  proof -
    from store_each_present [OF run' that]
    obtain x' v' where x': "map_of S' k = Some x'" "?f v' = Inr (Some (k, x'))" by blast
    from updateLocalStore_entry_clean [OF x'(2)] x'(1) show ?thesis by auto
  qed
  show "\<exists>S'. getLocalStore parse fs' p = Inr (JObj S')
         \<and> (\<forall>k. (\<forall>v\<in>set (as_array fileProperties). \<forall>x.
                    updateLocalStore_entry helper nz v \<noteq> Inr (Some (k, x)))
              \<longrightarrow> map_of S' k = map_of S k)
         \<and> (\<forall>k x. map_of S' k = Some x \<longrightarrow>
              map_of S k = Some x
              \<or> (\<exists>v\<in>set (as_array fileProperties).
                    updateLocalStore_entry helper nz v = Inr (Some (k, x))))
         \<and> (\<forall>v\<in>set (as_array fileProperties). \<forall>k x.
              updateLocalStore_entry helper nz v = Inr (Some (k, x)) \<longrightarrow>
              (\<exists>e. map_of S' k = Some (JObj e)
                 \<and> get_prop e ''mmState'' = Some (JStr ''clean'')))"
    using read frame origin present by blast
next
  fix e fs'
  assume "updateLocalStore helper nz parse p fileProperties fs = (Rejected e, fs')"
  then show "fs' = fs"
    by (auto simp: updateLocalStore_def split: sum.splits)
next
  let ?vs = "as_array fileProperties"
  let ?f = "updateLocalStore_entry helper nz"
  assume ok: "\<forall>v\<in>set ?vs. \<exists>r. ?f v = Inr r" and d: "is_dir fs (path_join p ''config'')"
  from store_each_succeeds [OF ok] obtain S' where "store_each ?f ?vs (JObj S) = Inr (JObj S')"
    by blast
  moreover have "outputFile fs (local_store_path p) (JsonText (JObj S'))
                   = Inr (fs_put fs (local_store_path p) (File (JsonText (JObj S'))))"
    using d getLocalStore_not_dir [OF assms]
    by (simp add: outputFile_succeeds dirname_local_store_path)
  ultimately show "\<exists>fs'. updateLocalStore helper nz parse p fileProperties fs = (Resolved (), fs')"
    using assms by (simp add: updateLocalStore_def)
qed

theorem updateLocalStore_merges_witness:
  "getLocalStore (\<lambda>s. Inl (Error ''Unexpected token'')) stored_disk ''/tmp/ws/Proj1''
     = Inr (JObj [(''Bar.cls'', bar_entry), (''Foo.cls'', JObj foo_cls)])
   \<and> updateLocalStore demo_helper (\<lambda>fp. fp) (\<lambda>s. Inl (Error ''Unexpected token''))
        ''/tmp/ws/Proj1'' (Some demo_properties) stored_disk
     = (Resolved (),
        [(''/tmp/ws/Proj1'', Dir), (''/tmp/ws/Proj1/config'', Dir),
         (''/tmp/ws/Proj1/config/.local_store'',
          File (JsonText (JObj [(''Bar.cls'', bar_entry), (''Foo.cls'', mark_clean foo_cls)])))])
   \<and> updateLocalStore demo_helper (\<lambda>fp. fp) (\<lambda>s. Inl (Error ''Unexpected token''))
        ''/tmp/ws/Proj1'' None stored_disk
     = (Rejected type_error, stored_disk)"
proof -
  let ?parse = "\<lambda>s::string. Inl (Error ''Unexpected token'') :: error + json"
  let ?S = "[(''Bar.cls'', bar_entry), (''Foo.cls'', JObj foo_cls)]"
  have g: "getLocalStore ?parse stored_disk ''/tmp/ws/Proj1'' = Inr (JObj ?S)"
    by (simp add: getLocalStore_def readJsonSync_def local_store_path_def join3_def path_join_def
        stored_disk_def)
  have e1: "updateLocalStore_entry demo_helper (\<lambda>fp. fp) (Some (JObj foo_cls))
              = Inr (Some (''Foo.cls'', mark_clean foo_cls))"
    by (simp add: updateLocalStore_entry_def resolve_type_def store_assignment_def
        demo_helper_def foo_cls_def get_prop_def includes_str_def apexClass_def
        str_or_undefined_def second_piece_def attributes_type_def)
  have e2: "updateLocalStore_entry demo_helper (\<lambda>fp. fp)
              (Some (JObj [(''fileName'', JStr ''unpackaged/package.xml''),
                           (''fullName'', JStr ''unpackaged/package.xml'')])) = Inr None"
    by (simp add: updateLocalStore_entry_def resolve_type_def store_assignment_def
        demo_helper_def get_prop_def includes_str_def second_piece_def attributes_type_def)
  have e3: "updateLocalStore_entry demo_helper (\<lambda>fp. fp)
              (Some (JObj [(''fileName'', JStr ''unpackaged/misc/Thing.xyz''),
                           (''fullName'', JStr ''Thing'')])) = Inr None"
    by (simp add: updateLocalStore_entry_def resolve_type_def store_assignment_def
        demo_helper_def get_prop_def includes_str_def second_piece_def attributes_type_def)
  have run: "store_each (updateLocalStore_entry demo_helper (\<lambda>fp. fp))
               (as_array (Some demo_properties)) (JObj ?S)
               = Inr (JObj [(''Bar.cls'', bar_entry), (''Foo.cls'', mark_clean foo_cls)])"
    by (simp add: as_array_def demo_properties_def e1 e2 e3 store_set_def)
  have dn: "dirname ''/tmp/ws/Proj1/config/.local_store'' = ''/tmp/ws/Proj1/config''"
    by (simp add: dirname_def)
  have u: "updateLocalStore demo_helper (\<lambda>fp. fp) ?parse ''/tmp/ws/Proj1'' (Some demo_properties)
             stored_disk
     = (Resolved (),
        [(''/tmp/ws/Proj1'', Dir), (''/tmp/ws/Proj1/config'', Dir),
         (''/tmp/ws/Proj1/config/.local_store'',
          File (JsonText (JObj [(''Bar.cls'', bar_entry), (''Foo.cls'', mark_clean foo_cls)])))])"
    unfolding updateLocalStore_def g
    by (simp add: run outputFile_def local_store_path_def join3_def
        path_join_def dn existsSync_def stored_disk_def writeFileSync_def is_dir_def fs_put_def)
  have r: "\<exists>e fs'. updateLocalStore demo_helper (\<lambda>fp. fp) ?parse ''/tmp/ws/Proj1'' None stored_disk
             = (Rejected e, fs') \<and> e = type_error"
    unfolding updateLocalStore_def g
    by (simp add: as_array_def updateLocalStore_entry_def)
  then obtain e fs' where rej: "updateLocalStore demo_helper (\<lambda>fp. fp) ?parse ''/tmp/ws/Proj1'' None
      stored_disk = (Rejected e, fs')" "e = type_error" by blast
  from updateLocalStore_merges [OF g, of demo_helper "\<lambda>fp. fp" None] rej
  have "fs' = stored_disk" by blast
  with rej g u show ?thesis by simp
qed

subsection \<open>compile\<close>

text \<open>
  A deploy that succeeds with a retrieve result, on a project whose local store file is
  missing: the merge fails in \<^verbatim>\<open>getLocalStore\<close>, the chain's \<^verbatim>\<open>catch\<close> takes over, and
  \<^verbatim>\<open>compile\<close> rejects with that error instead of resolving with the deploy result.
\<close>

theorem compile_rejects_on_failed_merge:
  "sfdcClient_deploy demo_compile ''/tmp/mm_1/unpackaged.zip'' unstored_disk
     = Inr (deployed, unstored_disk)
   \<and> fst (compile demo_compile demo_helper (\<lambda>fp. fp) (\<lambda>s. Inl (Error ''Unexpected token''))
             ''/tmp/ws/Proj1'' unstored_disk)
       = Rejected (enoent ''/tmp/ws/Proj1/config/.local_store'')"
  by code_simp

text \<open>
  C6 (as amended). After a successful copy, zip and deploy, \<^verbatim>\<open>compile\<close> resolves with the
  deploy result when the response has no retrieve result, and when it has one and
  \<^verbatim>\<open>updateLocalStore\<close> (the incremental merge) resolves; the file properties inside the result
  are then the objects the merge has marked clean. When the merge rejects, \<^verbatim>\<open>compile\<close>
  rejects with the merge's error; when \<^verbatim>\<open>details\<close> is missing it rejects with the
  \<^verbatim>\<open>TypeError\<close>.
\<close>

theorem compile_result:
  assumes "temp_mkdirSync c fs = Inr (newPath, fs1)"
    and "copySync fs1 (path_join p ''src'') (path_join newPath ''unpackaged'') = Inr fs2"
    and "zipDirectory c (path_join newPath ''unpackaged'') newPath fs2 = Inr fs3"
    and "sfdcClient_deploy c (path_join newPath ''unpackaged.zip'') fs3 = Inr (deployResult, fs4)"
  shows
  "(\<forall>e. details_retrieveResult deployResult = Inl e \<longrightarrow>
        compile c helper nz parse p fs = (Rejected e, fs4))
   \<and> (\<forall>retrieveResult. details_retrieveResult deployResult = Inr retrieveResult \<longrightarrow>
        (\<not> truthy retrieveResult \<longrightarrow>
           compile c helper nz parse p fs = (Resolved deployResult, fs4))
        \<and> (truthy retrieveResult \<longrightarrow>
             (\<forall>fs5. updateLocalStore helper nz parse p
                       (retrieveResult_fileProperties retrieveResult) fs4 = (Resolved (), fs5) \<longrightarrow>
                compile c helper nz parse p fs
                  = (Resolved (with_fileProperties deployResult
                                 (marked_properties helper nz
                                    (retrieveResult_fileProperties retrieveResult))), fs5))
             \<and> (\<forall>e fs5. updateLocalStore helper nz parse p
                       (retrieveResult_fileProperties retrieveResult) fs4 = (Rejected e, fs5) \<longrightarrow>
                compile c helper nz parse p fs = (Rejected e, fs5))))"
  using assms by (simp add: compile_def compile_merge_def)

theorem compile_result_witness:
  "compile demo_compile demo_helper (\<lambda>fp. fp) (\<lambda>s. Inl (Error ''Unexpected token''))
       ''/tmp/ws/Proj1'' merge_disk
     = (Resolved (JObj [(''success'', JBool True),
                        (''details'', JObj [(''retrieveResult'',
                            JObj [(''fileProperties'', JArr [mark_clean foo_cls])])])]),
        fs_put (fs_put (fs_put (fs_put (fs_put merge_disk ''/tmp/mm_1'' Dir)
                  ''/tmp/mm_1/unpackaged'' Dir)
                  ''/tmp/mm_1/unpackaged/package.xml'' (File (Bytes ''<Package/>'')))
           ''/tmp/mm_1/unpackaged.zip'' (File (Bytes ''PK'')))
          ''/tmp/ws/Proj1/config/.local_store''
          (File (JsonText (JObj [(''Bar.cls'', bar_entry), (''Foo.cls'', mark_clean foo_cls)]))))"
proof -
  let ?parse = "\<lambda>s::string. Inl (Error ''Unexpected token'') :: error + json"
  let ?fs1 = "fs_put merge_disk ''/tmp/mm_1'' Dir"
  let ?fs2 = "fs_put (fs_put ?fs1 ''/tmp/mm_1/unpackaged'' Dir)
                  ''/tmp/mm_1/unpackaged/package.xml'' (File (Bytes ''<Package/>''))"
  let ?fs3 = "fs_put ?fs2 ''/tmp/mm_1/unpackaged.zip'' (File (Bytes ''PK''))"
  have a1: "temp_mkdirSync demo_compile merge_disk = Inr (''/tmp/mm_1'', ?fs1)"
    by (simp add: demo_compile_def)
  have a2: "copySync ?fs1 (path_join ''/tmp/ws/Proj1'' ''src'') (path_join ''/tmp/mm_1'' ''unpackaged'')
              = Inr ?fs2"
    by code_simp
  have a3: "zipDirectory demo_compile (path_join ''/tmp/mm_1'' ''unpackaged'') ''/tmp/mm_1'' ?fs2
              = Inr ?fs3"
    by (simp add: demo_compile_def)
  have a4: "sfdcClient_deploy demo_compile (path_join ''/tmp/mm_1'' ''unpackaged.zip'') ?fs3
              = Inr (deployed, ?fs3)"
    by (simp add: demo_compile_def)
  have a5: "details_retrieveResult deployed
              = Inr (Some (JObj [(''fileProperties'', JArr [JObj foo_cls])]))"
    by code_simp
  have a6: "truthy (Some (JObj [(''fileProperties'', JArr [JObj foo_cls])]))" by simp
  have a7: "updateLocalStore demo_helper (\<lambda>fp. fp) ?parse ''/tmp/ws/Proj1''
              (retrieveResult_fileProperties (Some (JObj [(''fileProperties'', JArr [JObj foo_cls])])))
              ?fs3
            = (Resolved (),
               fs_put ?fs3 ''/tmp/ws/Proj1/config/.local_store''
                 (File (JsonText (JObj [(''Bar.cls'', bar_entry), (''Foo.cls'', mark_clean foo_cls)]))))"
    by code_simp
  have a8: "with_fileProperties deployed
              (marked_properties demo_helper (\<lambda>fp. fp)
                 (retrieveResult_fileProperties (Some (JObj [(''fileProperties'', JArr [JObj foo_cls])]))))
            = JObj [(''success'', JBool True),
                        (''details'', JObj [(''retrieveResult'',
                            JObj [(''fileProperties'', JArr [mark_clean foo_cls])])])]"
    by code_simp
  from compile_result [OF a1 a2 a3 a4, of demo_helper "\<lambda>fp. fp" ?parse] a5 a6 a7 a8
  show ?thesis by simp
qed

subsection \<open>retrieveAndWriteToDisk\<close>

lemma map_of_removeSync:
  "map_of (removeSync fs p) q = (if q = p \<or> under p q then None else map_of fs q)"
  unfolding removeSync_def by (induction fs) auto

lemma removeSync_gone:
  "\<not> existsSync (removeSync fs p) p \<and> (\<forall>q. under p q \<longrightarrow> \<not> existsSync (removeSync fs p) q)"
  by (simp add: existsSync_def map_of_removeSync)








subsection \<open>_initNewProjectFromExistingDirectory\<close>

lemma existsSync_fs_put: "existsSync fs q \<Longrightarrow> existsSync (fs_put fs p n) q"
  by (simp add: existsSync_def)

lemma mkdirs_keeps: "mkdirs ds fs = Inr fs' \<Longrightarrow> existsSync fs q \<Longrightarrow> existsSync fs' q"
  by (induction ds arbitrary: fs)
    (auto simp: existsSync_fs_put split: option.splits node.splits)

lemma mkdirpSync_keeps: "mkdirpSync fs p = Inr fs' \<Longrightarrow> existsSync fs q \<Longrightarrow> existsSync fs' q"
  unfolding mkdirpSync_def by (rule mkdirs_keeps)

lemma writeFileSync_keeps: "writeFileSync fs p c = Inr fs' \<Longrightarrow> existsSync fs q \<Longrightarrow> existsSync fs' q"
  by (auto simp: writeFileSync_def existsSync_fs_put split: if_splits)

lemma outputFile_keeps: "outputFile fs p c = Inr fs' \<Longrightarrow> existsSync fs q \<Longrightarrow> existsSync fs' q"
  by (auto simp: outputFile_def split: if_splits sum.splits
      dest: writeFileSync_keeps mkdirpSync_keeps)

lemma setDescribe_keeps:
  "existsSync fs q \<Longrightarrow> existsSync (disk_after_step (setDescribe self d fs)) q"
  by (auto simp: setDescribe_def disk_after_step_def split: option.splits sum.splits
      dest: outputFile_keeps)

lemma writeLocalStore_keeps:
  "existsSync fs q \<Longrightarrow> existsSync (snd (writeLocalStore helper p props fs)) q"
  by (auto simp: writeLocalStore_def split: sum.splits dest: outputFile_keeps)

lemma removeSync_below_keeps:
  "existsSync fs q \<Longrightarrow> existsSync (removeSync fs (path_join q b)) q"
  by (auto simp: existsSync_def map_of_removeSync path_join_def under_def prefix_def)

lemma existing_directory_after_retrieve_keeps:
  assumes "leaves_in_place c q" and "existsSync fs q"
    and "existing_directory_after_retrieve c helper self q rr fs = Inl (e, self', fs')"
  shows "existsSync fs' q"
proof -
  let ?fs1 = "if existsSync fs (path_join q ''unpackaged'')
              then removeSync fs (path_join q ''unpackaged'') else fs"
  let ?self1 = "self\<lparr>project_id := Some (uuid_v1 c)\<rparr>"
  have 1: "existsSync ?fs1 q" using assms(2) by (simp add: removeSync_below_keeps)
  have 2: "existsSync (disk_after_step (initConfig c ?self1 ?fs1)) q"
    using assms(1) 1 unfolding leaves_in_place_def by blast
  show ?thesis
  proof (cases "member (Some rr) ''fileProperties''")
    case (Inl x)
    with assms(3) assms(2) show ?thesis
      by (simp add: existing_directory_after_retrieve_def)
  next
    case (Inr props)
    show ?thesis
    proof (cases "initConfig c ?self1 ?fs1")
      case (Inl x)
      with assms(3) Inr 2 show ?thesis
        by (auto simp: existing_directory_after_retrieve_def Let_def disk_after_step_def
            split: prod.splits)
    next
      case fs2: (Inr fs2)
      with 2 have "existsSync fs2 q" by (simp add: disk_after_step_def)
      from writeLocalStore_keeps [OF this, of helper q props]
      show ?thesis using assms(3) Inr fs2
        by (auto simp: existing_directory_after_retrieve_def Let_def
            split: prod.splits outcome.splits)
    qed
  qed
qed

lemma existing_directory_chain_keeps:
  assumes "leaves_in_place c q" and "existsSync fs q"
    and "existing_directory_chain c helper self q fs = Inl (e, self', fs')"
  shows "existsSync fs' q"
proof -
  have 1: "existsSync (disk_after (sfdcClient_describe c fs)) q"
    using assms(1,2) unfolding leaves_in_place_def by blast
  show ?thesis
  proof (cases "sfdcClient_describe c fs")
    case (Inl x)
    with assms(3) 1 show ?thesis
      by (auto simp: existing_directory_chain_def disk_after_def split: prod.splits)
  next
    case (Inr x)
    obtain d fs1 where x: "x = (d, fs1)" by (cases x)
    with Inr 1 have e1: "existsSync fs1 q" by (simp add: disk_after_def)
    have 2: "existsSync (disk_after_step (setDescribe self d fs1)) q"
      using e1 by (rule setDescribe_keeps)
    show ?thesis
    proof (cases "setDescribe self d fs1")
      case (Inl y)
      with assms(3) Inr x 2 show ?thesis
        by (auto simp: existing_directory_chain_def disk_after_step_def split: prod.splits)
    next
      case fs2: (Inr fs2)
      with 2 have e2: "existsSync fs2 q" by (simp add: disk_after_step_def)
      have 3: "existsSync (disk_after (Package_subscription c (join3 q ''src'' ''package.xml'') fs2)) q"
        using assms(1) e2 unfolding leaves_in_place_def by blast
      show ?thesis
      proof (cases "Package_subscription c (join3 q ''src'' ''package.xml'') fs2")
        case (Inl y)
        with assms(3) Inr x fs2 3 show ?thesis
          by (auto simp: existing_directory_chain_def disk_after_def split: prod.splits)
      next
        case sub: (Inr y)
        obtain s fs3 where y: "y = (s, fs3)" by (cases y)
        with sub 3 have e3: "existsSync fs3 q" by (simp add: disk_after_def)
        have 4: "existsSync (disk_after (sfdcClient_retrieveUnpackaged c s q fs3)) q"
          using assms(1) e3 unfolding leaves_in_place_def by blast
        show ?thesis
        proof (cases "sfdcClient_retrieveUnpackaged c s q fs3")
          case (Inl z)
          with assms(3) Inr x fs2 sub y 4 show ?thesis
            by (auto simp: existing_directory_chain_def disk_after_def split: prod.splits)
        next
          case rr: (Inr z)
          obtain r fs4 where z: "z = (r, fs4)" by (cases z)
          with rr 4 have e4: "existsSync fs4 q" by (simp add: disk_after_def)
          from assms(3) Inr x fs2 sub y rr z
          have "existing_directory_after_retrieve c helper self q r fs4 = Inl (e, self', fs')"
            by (simp add: existing_directory_chain_def)
          from existing_directory_after_retrieve_keeps [OF assms(1) e4 this] show ?thesis .
        qed
      qed
    qed
  qed
qed

text \<open>
  C8. When \<^verbatim>\<open>_initNewProjectFromExistingDirectory\<close> rejects, a destination \<^verbatim>\<open>workspace/name\<close>
  that existed before the call still exists, as long as no collaborator removes it; this
  covers the project that is its own origin. When the chain fails after the checks and the
  copy, the \<^verbatim>\<open>catch\<close> removes the destination if the origin differs from it, so the freshly
  copied directory is gone, and leaves the disk as the failing handler left it if the
  origin is the destination.
\<close>

theorem existing_directory_cleanup:
  assumes "workspace self = Some w" and "name self = Some n" and "origin self = Some orig"
  shows
  "(\<forall>e self' fs'.
      initNewProjectFromExistingDirectory c helper self fs = (Rejected e, self', fs') \<longrightarrow>
      existsSync fs (path_join w n) \<longrightarrow> leaves_in_place c (path_join w n) \<longrightarrow>
      existsSync fs' (path_join w n))
   \<and> (\<forall>e fs1 fs2 self'' fs''.
        existing_directory_checks self fs = Inr (orig, path_join w n, fs1) \<longrightarrow>
        mkdirpSync fs1 (path_join (path_join w n) ''config'') = Inr fs2 \<longrightarrow>
        existing_directory_chain c helper (self\<lparr>path := Some (path_join w n)\<rparr>)
          (path_join w n) fs2 = Inl (e, self'', fs'') \<longrightarrow>
        initNewProjectFromExistingDirectory c helper self fs
          = (Rejected e, self'',
             if orig \<noteq> path_join w n \<and> existsSync fs'' (path_join w n)
             then removeSync fs'' (path_join w n) else fs'')
        \<and> (orig \<noteq> path_join w n \<longrightarrow>
              \<not> existsSync (snd (snd (initNewProjectFromExistingDirectory c helper self fs)))
                   (path_join w n))
        \<and> (orig = path_join w n \<longrightarrow>
              snd (snd (initNewProjectFromExistingDirectory c helper self fs)) = fs''))"
proof -
  let ?dest = "path_join w n"
  let ?R = "initNewProjectFromExistingDirectory c helper self fs"
  have pj: "path_join_opt (workspace self) (name self) = Inr ?dest"
    using assms by (simp add: path_join_opt_def)
  have 1: "existsSync fs' ?dest"
    if r: "?R = (Rejected e, self', fs')" and ex: "existsSync fs ?dest"
      and keep: "leaves_in_place c ?dest" for e self' fs'
  proof (cases "existing_directory_checks self fs")
    case (Inl x)
    obtain e0 fs0 where x: "x = (e0, fs0)" by (cases x)
    have "fs0 = fs"
      using Inl x assms ex pj
      by (auto simp: existing_directory_checks_def split: if_splits sum.splits)
    with r Inl x ex show ?thesis by (simp add: initNewProjectFromExistingDirectory_def)
  next
    case (Inr y)
    then have y: "y = (orig, ?dest, fs)" "orig = ?dest"
      using assms ex pj
      by (auto simp: existing_directory_checks_def split: if_splits sum.splits)
    show ?thesis
    proof (cases "mkdirpSync fs (path_join ?dest ''config'')")
      case (Inl e1)
      with r Inr y ex show ?thesis
        by (simp add: initNewProjectFromExistingDirectory_def Let_def)
    next
      case fs2: (Inr fs2)
      from mkdirpSync_keeps [OF fs2 ex] have e2: "existsSync fs2 ?dest" .
      show ?thesis
      proof (cases "existing_directory_chain c helper (self\<lparr>path := Some ?dest\<rparr>) ?dest fs2")
        case (Inl z)
        obtain e3 self3 fs3 where z: "z = (e3, self3, fs3)" by (cases z)
        from existing_directory_chain_keeps [OF keep e2 Inl [unfolded z]]
        have "existsSync fs3 ?dest" .
        with r Inr y fs2 Inl z show ?thesis
          by (simp add: initNewProjectFromExistingDirectory_def Let_def)
      next
        case (Inr z)
        with r \<open>existing_directory_checks self fs = Inr y\<close> y fs2 show ?thesis
          by (simp add: initNewProjectFromExistingDirectory_def Let_def split: prod.splits)
      qed
    qed
  qed
  have 2: "?R = (Rejected e, self'',
             if orig \<noteq> ?dest \<and> existsSync fs'' ?dest then removeSync fs'' ?dest else fs'')
        \<and> (orig \<noteq> ?dest \<longrightarrow> \<not> existsSync (snd (snd ?R)) ?dest)
        \<and> (orig = ?dest \<longrightarrow> snd (snd ?R) = fs'')"
    if "existing_directory_checks self fs = Inr (orig, ?dest, fs1)"
      "mkdirpSync fs1 (path_join ?dest ''config'') = Inr fs2"
      "existing_directory_chain c helper (self\<lparr>path := Some ?dest\<rparr>) ?dest fs2
         = Inl (e, self'', fs'')" for e fs1 fs2 self'' fs''
  proof -
    have R: "?R = (Rejected e, self'',
             if orig \<noteq> ?dest \<and> existsSync fs'' ?dest then removeSync fs'' ?dest else fs'')"
      using that by (simp add: initNewProjectFromExistingDirectory_def Let_def)
    then show ?thesis using removeSync_gone [of fs'' ?dest] by auto
  qed
  show ?thesis using 1 2 by blast
qed

theorem existing_directory_cleanup_witness:
  "fst (initNewProjectFromExistingDirectory failing_retrieve demo_helper in_place_project
          in_place_disk) = Rejected (Error ''deploy failed'')
   \<and> existsSync (snd (snd (initNewProjectFromExistingDirectory failing_retrieve demo_helper
          in_place_project in_place_disk))) ''/tmp/ws/Proj1''
   \<and> existsSync in_place_disk ''/tmp/ws/Proj1''
   \<and> initNewProjectFromExistingDirectory failing_retrieve demo_helper imported_project import_disk
       = (Rejected (Error ''deploy failed''), imported_project\<lparr>path := Some ''/tmp/ws/Proj1''\<rparr>,
          import_disk)
   \<and> \<not> existsSync import_disk ''/tmp/ws/Proj1''"
proof -
  let ?R1 = "initNewProjectFromExistingDirectory failing_retrieve demo_helper in_place_project
          in_place_disk"
  have p1: "workspace in_place_project = Some ''/tmp/ws''" "name in_place_project = Some ''Proj1''"
    "origin in_place_project = Some ''/tmp/ws/Proj1''"
    by (simp_all add: in_place_project_def new_proj1_def)
  have p2: "workspace imported_project = Some ''/tmp/ws''" "name imported_project = Some ''Proj1''"
    "origin imported_project = Some ''/home/dev/Old''"
    by (simp_all add: imported_project_def new_proj1_def)
  have pj: "path_join ''/tmp/ws'' ''Proj1'' = ''/tmp/ws/Proj1''" by (simp add: path_join_def)
  have r1: "fst ?R1 = Rejected (Error ''deploy failed'')" by code_simp
  then have r1': "?R1 = (Rejected (Error ''deploy failed''), fst (snd ?R1), snd (snd ?R1))"
    by (metis prod.collapse)
  have ex: "existsSync in_place_disk ''/tmp/ws/Proj1''" by code_simp
  have keep: "leaves_in_place failing_retrieve ''/tmp/ws/Proj1''"
    by (simp add: leaves_in_place_def failing_retrieve_def disk_after_def disk_after_step_def
        ok_step_def existsSync_fs_put initConfig_def initConfig_in_flight_def)
  from existing_directory_cleanup [OF p1, of failing_retrieve demo_helper in_place_disk]
    r1' ex keep pj
  have k: "existsSync (snd (snd ?R1)) ''/tmp/ws/Proj1''" by metis
  let ?fs1 = "import_disk @ [(''/tmp/ws/Proj1'', Dir), (''/tmp/ws/Proj1/src'', Dir),
       (''/tmp/ws/Proj1/src/package.xml'', File (Bytes ''<Package/>''))]"
  let ?fs2 = "?fs1 @ [(''/tmp/ws/Proj1/config'', Dir)]"
  let ?fs3 = "?fs2 @ [(''/tmp/ws/Proj1/config/.describe'', File (JsonText (JObj []))),
       (''/tmp/ws/Proj1/unpackaged'', Dir)]"
  have c1: "existing_directory_checks imported_project import_disk
              = Inr (''/home/dev/Old'', path_join ''/tmp/ws'' ''Proj1'', ?fs1)"
    by code_simp
  have c2: "mkdirpSync ?fs1 (path_join (path_join ''/tmp/ws'' ''Proj1'') ''config'') = Inr ?fs2"
    by code_simp
  have c3: "existing_directory_chain failing_retrieve demo_helper
              (imported_project\<lparr>path := Some (path_join ''/tmp/ws'' ''Proj1'')\<rparr>)
              (path_join ''/tmp/ws'' ''Proj1'') ?fs2
            = Inl (Error ''deploy failed'', imported_project\<lparr>path := Some ''/tmp/ws/Proj1''\<rparr>, ?fs3)"
    by code_simp
  have rm: "(if ''/home/dev/Old'' \<noteq> path_join ''/tmp/ws'' ''Proj1''
               \<and> existsSync ?fs3 (path_join ''/tmp/ws'' ''Proj1'')
             then removeSync ?fs3 (path_join ''/tmp/ws'' ''Proj1'') else ?fs3) = import_disk"
    by code_simp
  from existing_directory_cleanup [OF p2, of failing_retrieve demo_helper import_disk] c1 c2 c3
  have "initNewProjectFromExistingDirectory failing_retrieve demo_helper imported_project import_disk
          = (Rejected (Error ''deploy failed''), imported_project\<lparr>path := Some ''/tmp/ws/Proj1''\<rparr>,
             if ''/home/dev/Old'' \<noteq> path_join ''/tmp/ws'' ''Proj1''
               \<and> existsSync ?fs3 (path_join ''/tmp/ws'' ''Proj1'')
             then removeSync ?fs3 (path_join ''/tmp/ws'' ''Proj1'') else ?fs3)"
    by blast
  then have r2: "initNewProjectFromExistingDirectory failing_retrieve demo_helper imported_project
                   import_disk
          = (Rejected (Error ''deploy failed''), imported_project\<lparr>path := Some ''/tmp/ws/Proj1''\<rparr>,
             import_disk)"
    by (simp only: rm)
  have ne: "\<not> existsSync import_disk ''/tmp/ws/Proj1''" by code_simp
  show ?thesis using r1 k ex r2 ne by blast
qed

subsection \<open>getOrgMetadataIndexWithSelections\<close>






lemma length_update_first [simp]: "length (update_first P f xs) = length xs"
  by (induction xs) auto

lemma grows_mark_selected: "select c \<longrightarrow> select (mark_selected c)"
  by (cases c) simp

lemma select_mark_selected [simp]: "select (mark_selected c)"
  by (cases c) simp



















lemma children_selected_select_children [simp]: "children_selected (select_children n)"
  by (cases n) (simp add: children_selected_def)








subsection \<open>replaceLocalFiles\<close>
































end
